theory Spec2Isabelle
  imports Main "HOL-Library.Word"
begin

section \<open>Python values and strings\<close>

text \<open>
  The program is \<^verbatim>\<open>templates/python/text_transform/main.py\<close>. A Python \<^verbatim>\<open>str\<close> is a
  sequence of Unicode code points, so it is modelled as a list of code points and not
  as a list of bytes: slicing, comparison and case conversion of the source all work
  on code points.
\<close>

type_synonym codepoint = nat
type_synonym pystr = "codepoint list"

definition py :: "string \<Rightarrow> pystr" where
  "py s = map of_char s"

text \<open>
  The values that \<^verbatim>\<open>json.loads\<close> builds: \<^verbatim>\<open>None\<close>, \<^verbatim>\<open>bool\<close>, \<^verbatim>\<open>int\<close> (unbounded),
  \<^verbatim>\<open>float\<close> (kept as its binary64 bit pattern, the program never computes with it),
  \<^verbatim>\<open>str\<close>, \<^verbatim>\<open>list\<close> and \<^verbatim>\<open>dict\<close> (string keys, in insertion order).
\<close>

datatype pyval =
    PyNone
  | PyBool bool
  | PyInt int
  | PyFloat "64 word"
  | PyStr pystr
  | PyList "pyval list"
  | PyDict "(pystr \<times> pyval) list"

datatype pyexc =
    SystemExit int
  | IndexError
  | JSONDecodeError
  | AttributeError
  | TypeError
  | KeyError

section \<open>The library the program calls\<close>

text \<open>
  The program calls into the Python library, which is not part of the repository.
  What the library computes on a document is a parameter of the model:
  \<^item> \<open>json_loads\<close> is \<^verbatim>\<open>json.loads\<close>: \<open>None\<close> when the library rejects the document
    (it raises \<^verbatim>\<open>json.JSONDecodeError\<close>), the decoded value otherwise, in which a
    \<^verbatim>\<open>dict\<close> holds each key once. The library accepts more than JSON: the literals
    \<^verbatim>\<open>NaN\<close>, \<^verbatim>\<open>Infinity\<close> and \<^verbatim>\<open>-Infinity\<close> are decoded to floats;
  \<^item> \<open>json_dumps\<close> is \<^verbatim>\<open>json.dumps\<close> with its default arguments, which gives a
    string for every value that \<^verbatim>\<open>json.loads\<close> builds;
  \<^item> \<open>cased\<close> and \<open>case_ignorable\<close> are the character properties Cased and
    Case_Ignorable of the Unicode database, which \<^verbatim>\<open>str.lower\<close> consults to choose
    between the two lowercase sigmas;
  \<^item> \<open>slice_hashable\<close> tells whether a slice object is hashable (it is from
    Python 3.12 on), which decides the exception of \<^verbatim>\<open>d[::-1]\<close> on a \<^verbatim>\<open>dict\<close>.
\<close>

record pylib =
  json_loads :: "pystr \<Rightarrow> pyval option"
  json_dumps :: "pyval \<Rightarrow> pystr"
  cased :: "codepoint \<Rightarrow> bool"
  case_ignorable :: "codepoint \<Rightarrow> bool"
  slice_hashable :: bool

section \<open>Case conversion\<close>

text \<open>
  \<^verbatim>\<open>str.upper()\<close> and \<^verbatim>\<open>str.lower()\<close> replace every code point by its full case
  mapping, a string of one to three code points. The mappings are those of the Unicode
  Character Database, version 14.0.0 (the simple mappings of \<^verbatim>\<open>UnicodeData.txt\<close> and
  the unconditional ones of \<^verbatim>\<open>SpecialCasing.txt\<close>), which is the database of
  CPython 3.11. They are kept as rules \<open>(lo, hi, stride, ts)\<close>: the code point \<open>c\<close>
  with \<open>lo \<le> c \<le> hi\<close> at a multiple of \<open>stride\<close> from \<open>lo\<close> is mapped to the code
  points of \<open>ts\<close>, each moved by \<open>c - lo\<close>. A code point that no rule covers is mapped
  to itself.
\<close>

type_synonym case_rule = "codepoint \<times> codepoint \<times> nat \<times> pystr"

fun covers :: "case_rule \<Rightarrow> codepoint \<Rightarrow> bool" where
  "covers (lo, hi, stride, ts) c = (lo \<le> c \<and> c \<le> hi \<and> (c - lo) mod stride = 0)"

fun apply_rule :: "case_rule \<Rightarrow> codepoint \<Rightarrow> pystr" where
  "apply_rule (lo, hi, stride, ts) c = map (\<lambda>t. t + (c - lo)) ts"

definition case_map :: "case_rule list \<Rightarrow> codepoint \<Rightarrow> pystr" where
  "case_map tbl c =
     (case find (\<lambda>r. covers r c) tbl of None \<Rightarrow> [c] | Some r \<Rightarrow> apply_rule r c)"

subsection \<open>The uppercase mappings\<close>

text \<open>
  The rules are in increasing order of the code points they cover. The table is cut
  into blocks along the code charts; a name says where a block starts, and a block
  may run on into the scripts that follow.
\<close>

definition upper_latin_1 :: "case_rule list" where
  "upper_latin_1 =
   [(97, 122, 1, [65]), (181, 181, 1, [924]), (223, 223, 1, [83, 83]), (224, 246, 1, [192]),
    (248, 254, 1, [216]), (255, 255, 1, [376]), (257, 303, 2, [256]), (305, 305, 1, [73]),
    (307, 311, 2, [306]), (314, 328, 2, [313]), (329, 329, 1, [700, 78]),
    (331, 375, 2, [330]), (378, 382, 2, [377]), (383, 383, 1, [83]), (384, 384, 1, [579]),
    (387, 389, 2, [386]), (392, 392, 1, [391]), (396, 396, 1, [395]), (402, 402, 1, [401]),
    (405, 405, 1, [502]), (409, 409, 1, [408]), (410, 410, 1, [573]), (414, 414, 1, [544]),
    (417, 421, 2, [416]), (424, 424, 1, [423])]"

definition upper_latin_2 :: "case_rule list" where
  "upper_latin_2 =
   [(429, 429, 1, [428]), (432, 432, 1, [431]), (436, 438, 2, [435]), (441, 441, 1, [440]),
    (445, 445, 1, [444]), (447, 447, 1, [503]), (453, 453, 1, [452]), (454, 454, 1, [452]),
    (456, 456, 1, [455]), (457, 457, 1, [455]), (459, 459, 1, [458]), (460, 460, 1, [458]),
    (462, 476, 2, [461]), (477, 477, 1, [398]), (479, 495, 2, [478]),
    (496, 496, 1, [74, 780]), (498, 498, 1, [497]), (499, 499, 1, [497]),
    (501, 501, 1, [500]), (505, 543, 2, [504]), (547, 563, 2, [546]), (572, 572, 1, [571]),
    (575, 576, 1, [11390]), (578, 578, 1, [577]), (583, 591, 2, [582])]"

definition upper_ipa_1 :: "case_rule list" where
  "upper_ipa_1 =
   [(592, 592, 1, [11375]), (593, 593, 1, [11373]), (594, 594, 1, [11376]),
    (595, 595, 1, [385]), (596, 596, 1, [390]), (598, 599, 1, [393]), (601, 601, 1, [399]),
    (603, 603, 1, [400]), (604, 604, 1, [42923]), (608, 608, 1, [403]),
    (609, 609, 1, [42924]), (611, 611, 1, [404]), (613, 613, 1, [42893]),
    (614, 614, 1, [42922]), (616, 616, 1, [407]), (617, 617, 1, [406]),
    (618, 618, 1, [42926]), (619, 619, 1, [11362])]"

definition upper_ipa_2 :: "case_rule list" where
  "upper_ipa_2 =
   [(620, 620, 1, [42925]), (623, 623, 1, [412]), (625, 625, 1, [11374]),
    (626, 626, 1, [413]), (629, 629, 1, [415]), (637, 637, 1, [11364]),
    (640, 640, 1, [422]), (642, 642, 1, [42949]), (643, 643, 1, [425]),
    (647, 647, 1, [42929]), (648, 648, 1, [430]), (649, 649, 1, [580]),
    (650, 651, 1, [433]), (652, 652, 1, [581]), (658, 658, 1, [439]),
    (669, 669, 1, [42930]), (670, 670, 1, [42928]), (837, 837, 1, [921])]"

definition upper_greek :: "case_rule list" where
  "upper_greek =
   [(881, 883, 2, [880]), (887, 887, 1, [886]), (891, 893, 1, [1021]),
    (912, 912, 1, [921, 776, 769]), (940, 940, 1, [902]), (941, 943, 1, [904]),
    (944, 944, 1, [933, 776, 769]), (945, 961, 1, [913]), (962, 962, 1, [931]),
    (963, 971, 1, [931]), (972, 972, 1, [908]), (973, 974, 1, [910]), (976, 976, 1, [914]),
    (977, 977, 1, [920]), (981, 981, 1, [934]), (982, 982, 1, [928]), (983, 983, 1, [975]),
    (985, 1007, 2, [984]), (1008, 1008, 1, [922]), (1009, 1009, 1, [929]),
    (1010, 1010, 1, [1017]), (1011, 1011, 1, [895]), (1013, 1013, 1, [917]),
    (1016, 1016, 1, [1015]), (1019, 1019, 1, [1018])]"

definition upper_cyrillic :: "case_rule list" where
  "upper_cyrillic =
   [(1072, 1103, 1, [1040]), (1104, 1119, 1, [1024]), (1121, 1153, 2, [1120]),
    (1163, 1215, 2, [1162]), (1218, 1230, 2, [1217]), (1231, 1231, 1, [1216]),
    (1233, 1327, 2, [1232])]"

definition upper_armenian_georgian :: "case_rule list" where
  "upper_armenian_georgian =
   [(1377, 1414, 1, [1329]), (1415, 1415, 1, [1333, 1362]), (4304, 4346, 1, [7312]),
    (4349, 4351, 1, [7357]), (5112, 5117, 1, [5104]), (7296, 7296, 1, [1042]),
    (7297, 7297, 1, [1044]), (7298, 7298, 1, [1054]), (7299, 7300, 1, [1057]),
    (7301, 7301, 1, [1058]), (7302, 7302, 1, [1066]), (7303, 7303, 1, [1122]),
    (7304, 7304, 1, [42570])]"

definition upper_latin_additional :: "case_rule list" where
  "upper_latin_additional =
   [(7545, 7545, 1, [42877]), (7549, 7549, 1, [11363]), (7566, 7566, 1, [42950]),
    (7681, 7829, 2, [7680]), (7830, 7830, 1, [72, 817]), (7831, 7831, 1, [84, 776]),
    (7832, 7832, 1, [87, 778]), (7833, 7833, 1, [89, 778]), (7834, 7834, 1, [65, 702]),
    (7835, 7835, 1, [7776]), (7841, 7935, 2, [7840])]"

definition upper_greek_extended_1 :: "case_rule list" where
  "upper_greek_extended_1 =
   [(7936, 7943, 1, [7944]), (7952, 7957, 1, [7960]), (7968, 7975, 1, [7976]),
    (7984, 7991, 1, [7992]), (8000, 8005, 1, [8008]), (8016, 8016, 1, [933, 787]),
    (8017, 8023, 2, [8025]), (8018, 8018, 1, [933, 787, 768]),
    (8020, 8020, 1, [933, 787, 769]), (8022, 8022, 1, [933, 787, 834]),
    (8032, 8039, 1, [8040]), (8048, 8049, 1, [8122]), (8050, 8053, 1, [8136]),
    (8054, 8055, 1, [8154]), (8056, 8057, 1, [8184]), (8058, 8059, 1, [8170]),
    (8060, 8061, 1, [8186]), (8064, 8064, 1, [7944, 921]), (8065, 8065, 1, [7945, 921]),
    (8066, 8066, 1, [7946, 921]), (8067, 8067, 1, [7947, 921]),
    (8068, 8068, 1, [7948, 921]), (8069, 8069, 1, [7949, 921]),
    (8070, 8070, 1, [7950, 921]), (8071, 8071, 1, [7951, 921])]"

definition upper_greek_extended_2 :: "case_rule list" where
  "upper_greek_extended_2 =
   [(8072, 8072, 1, [7944, 921]), (8073, 8073, 1, [7945, 921]),
    (8074, 8074, 1, [7946, 921]), (8075, 8075, 1, [7947, 921]),
    (8076, 8076, 1, [7948, 921]), (8077, 8077, 1, [7949, 921]),
    (8078, 8078, 1, [7950, 921]), (8079, 8079, 1, [7951, 921]),
    (8080, 8080, 1, [7976, 921]), (8081, 8081, 1, [7977, 921]),
    (8082, 8082, 1, [7978, 921]), (8083, 8083, 1, [7979, 921]),
    (8084, 8084, 1, [7980, 921]), (8085, 8085, 1, [7981, 921]),
    (8086, 8086, 1, [7982, 921]), (8087, 8087, 1, [7983, 921]),
    (8088, 8088, 1, [7976, 921]), (8089, 8089, 1, [7977, 921]),
    (8090, 8090, 1, [7978, 921]), (8091, 8091, 1, [7979, 921]),
    (8092, 8092, 1, [7980, 921]), (8093, 8093, 1, [7981, 921]),
    (8094, 8094, 1, [7982, 921]), (8095, 8095, 1, [7983, 921]), (8096, 8096, 1, [8040, 921])]"

definition upper_greek_extended_3 :: "case_rule list" where
  "upper_greek_extended_3 =
   [(8097, 8097, 1, [8041, 921]), (8098, 8098, 1, [8042, 921]),
    (8099, 8099, 1, [8043, 921]), (8100, 8100, 1, [8044, 921]),
    (8101, 8101, 1, [8045, 921]), (8102, 8102, 1, [8046, 921]),
    (8103, 8103, 1, [8047, 921]), (8104, 8104, 1, [8040, 921]),
    (8105, 8105, 1, [8041, 921]), (8106, 8106, 1, [8042, 921]),
    (8107, 8107, 1, [8043, 921]), (8108, 8108, 1, [8044, 921]),
    (8109, 8109, 1, [8045, 921]), (8110, 8110, 1, [8046, 921]),
    (8111, 8111, 1, [8047, 921]), (8112, 8113, 1, [8120]), (8114, 8114, 1, [8122, 921]),
    (8115, 8115, 1, [913, 921]), (8116, 8116, 1, [902, 921]), (8118, 8118, 1, [913, 834]),
    (8119, 8119, 1, [913, 834, 921]), (8124, 8124, 1, [913, 921]), (8126, 8126, 1, [921]),
    (8130, 8130, 1, [8138, 921]), (8131, 8131, 1, [919, 921])]"

definition upper_greek_extended_4 :: "case_rule list" where
  "upper_greek_extended_4 =
   [(8132, 8132, 1, [905, 921]), (8134, 8134, 1, [919, 834]),
    (8135, 8135, 1, [919, 834, 921]), (8140, 8140, 1, [919, 921]), (8144, 8145, 1, [8152]),
    (8146, 8146, 1, [921, 776, 768]), (8147, 8147, 1, [921, 776, 769]),
    (8150, 8150, 1, [921, 834]), (8151, 8151, 1, [921, 776, 834]), (8160, 8161, 1, [8168]),
    (8162, 8162, 1, [933, 776, 768]), (8163, 8163, 1, [933, 776, 769]),
    (8164, 8164, 1, [929, 787]), (8165, 8165, 1, [8172]), (8166, 8166, 1, [933, 834]),
    (8167, 8167, 1, [933, 776, 834]), (8178, 8178, 1, [8186, 921]),
    (8179, 8179, 1, [937, 921]), (8180, 8180, 1, [911, 921]), (8182, 8182, 1, [937, 834]),
    (8183, 8183, 1, [937, 834, 921]), (8188, 8188, 1, [937, 921])]"

definition upper_symbols :: "case_rule list" where
  "upper_symbols =
   [(8526, 8526, 1, [8498]), (8560, 8575, 1, [8544]), (8580, 8580, 1, [8579]),
    (9424, 9449, 1, [9398])]"

definition upper_glagolitic_coptic :: "case_rule list" where
  "upper_glagolitic_coptic =
   [(11312, 11359, 1, [11264]), (11361, 11361, 1, [11360]), (11365, 11365, 1, [570]),
    (11366, 11366, 1, [574]), (11368, 11372, 2, [11367]), (11379, 11379, 1, [11378]),
    (11382, 11382, 1, [11381]), (11393, 11491, 2, [11392]), (11500, 11502, 2, [11499]),
    (11507, 11507, 1, [11506]), (11520, 11557, 1, [4256]), (11559, 11559, 1, [4295]),
    (11565, 11565, 1, [4301])]"

definition upper_latin_d :: "case_rule list" where
  "upper_latin_d =
   [(42561, 42605, 2, [42560]), (42625, 42651, 2, [42624]), (42787, 42799, 2, [42786]),
    (42803, 42863, 2, [42802]), (42874, 42876, 2, [42873]), (42879, 42887, 2, [42878]),
    (42892, 42892, 1, [42891]), (42897, 42899, 2, [42896]), (42900, 42900, 1, [42948]),
    (42903, 42921, 2, [42902]), (42933, 42947, 2, [42932]), (42952, 42954, 2, [42951]),
    (42961, 42961, 1, [42960]), (42967, 42969, 2, [42966]), (42998, 42998, 1, [42997]),
    (43859, 43859, 1, [42931]), (43888, 43967, 1, [5024])]"

definition upper_presentation :: "case_rule list" where
  "upper_presentation =
   [(64256, 64256, 1, [70, 70]), (64257, 64257, 1, [70, 73]), (64258, 64258, 1, [70, 76]),
    (64259, 64259, 1, [70, 70, 73]), (64260, 64260, 1, [70, 70, 76]),
    (64261, 64261, 1, [83, 84]), (64262, 64262, 1, [83, 84]),
    (64275, 64275, 1, [1348, 1350]), (64276, 64276, 1, [1348, 1333]),
    (64277, 64277, 1, [1348, 1339]), (64278, 64278, 1, [1358, 1350]),
    (64279, 64279, 1, [1348, 1341]), (65345, 65370, 1, [65313])]"

definition upper_supplementary :: "case_rule list" where
  "upper_supplementary =
   [(66600, 66639, 1, [66560]), (66776, 66811, 1, [66736]), (66967, 66977, 1, [66928]),
    (66979, 66993, 1, [66940]), (66995, 67001, 1, [66956]), (67003, 67004, 1, [66964]),
    (68800, 68850, 1, [68736]), (71872, 71903, 1, [71840]), (93792, 93823, 1, [93760]),
    (125218, 125251, 1, [125184])]"

definition upper_table :: "case_rule list" where
  "upper_table =
     upper_latin_1 @ upper_latin_2 @ upper_ipa_1 @ upper_ipa_2 @ upper_greek @
     upper_cyrillic @ upper_armenian_georgian @ upper_latin_additional @
     upper_greek_extended_1 @ upper_greek_extended_2 @ upper_greek_extended_3 @
     upper_greek_extended_4 @ upper_symbols @ upper_glagolitic_coptic @ upper_latin_d @
     upper_presentation @ upper_supplementary"


subsection \<open>The lowercase mappings\<close>

definition lower_latin_1 :: "case_rule list" where
  "lower_latin_1 =
   [(65, 90, 1, [97]), (192, 214, 1, [224]), (216, 222, 1, [248]), (256, 302, 2, [257]),
    (304, 304, 1, [105, 775]), (306, 310, 2, [307]), (313, 327, 2, [314]),
    (330, 374, 2, [331]), (376, 376, 1, [255]), (377, 381, 2, [378]), (385, 385, 1, [595]),
    (386, 388, 2, [387]), (390, 390, 1, [596]), (391, 391, 1, [392]), (393, 394, 1, [598]),
    (395, 395, 1, [396]), (398, 398, 1, [477]), (399, 399, 1, [601]), (400, 400, 1, [603]),
    (401, 401, 1, [402]), (403, 403, 1, [608])]"

definition lower_latin_2 :: "case_rule list" where
  "lower_latin_2 =
   [(404, 404, 1, [611]), (406, 406, 1, [617]), (407, 407, 1, [616]), (408, 408, 1, [409]),
    (412, 412, 1, [623]), (413, 413, 1, [626]), (415, 415, 1, [629]), (416, 420, 2, [417]),
    (422, 422, 1, [640]), (423, 423, 1, [424]), (425, 425, 1, [643]), (428, 428, 1, [429]),
    (430, 430, 1, [648]), (431, 431, 1, [432]), (433, 434, 1, [650]), (435, 437, 2, [436]),
    (439, 439, 1, [658]), (440, 440, 1, [441]), (444, 444, 1, [445]), (452, 452, 1, [454]),
    (453, 453, 1, [454])]"

definition lower_latin_3 :: "case_rule list" where
  "lower_latin_3 =
   [(455, 455, 1, [457]), (456, 456, 1, [457]), (458, 458, 1, [460]), (459, 475, 2, [460]),
    (478, 494, 2, [479]), (497, 497, 1, [499]), (498, 500, 2, [499]), (502, 502, 1, [405]),
    (503, 503, 1, [447]), (504, 542, 2, [505]), (544, 544, 1, [414]), (546, 562, 2, [547]),
    (570, 570, 1, [11365]), (571, 571, 1, [572]), (573, 573, 1, [410]),
    (574, 574, 1, [11366]), (577, 577, 1, [578]), (579, 579, 1, [384]),
    (580, 580, 1, [649]), (581, 581, 1, [652]), (582, 590, 2, [583])]"

definition lower_greek :: "case_rule list" where
  "lower_greek =
   [(880, 882, 2, [881]), (886, 886, 1, [887]), (895, 895, 1, [1011]), (902, 902, 1, [940]),
    (904, 906, 1, [941]), (908, 908, 1, [972]), (910, 911, 1, [973]), (913, 929, 1, [945]),
    (931, 939, 1, [963]), (975, 975, 1, [983]), (984, 1006, 2, [985]),
    (1012, 1012, 1, [952]), (1015, 1015, 1, [1016]), (1017, 1017, 1, [1010]),
    (1018, 1018, 1, [1019]), (1021, 1023, 1, [891])]"

definition lower_cyrillic :: "case_rule list" where
  "lower_cyrillic =
   [(1024, 1039, 1, [1104]), (1040, 1071, 1, [1072]), (1120, 1152, 2, [1121]),
    (1162, 1214, 2, [1163]), (1216, 1216, 1, [1231]), (1217, 1229, 2, [1218]),
    (1232, 1326, 2, [1233])]"

definition lower_armenian_georgian :: "case_rule list" where
  "lower_armenian_georgian =
   [(1329, 1366, 1, [1377]), (4256, 4293, 1, [11520]), (4295, 4295, 1, [11559]),
    (4301, 4301, 1, [11565]), (5024, 5103, 1, [43888]), (5104, 5109, 1, [5112]),
    (7312, 7354, 1, [4304]), (7357, 7359, 1, [4349])]"

definition lower_latin_additional :: "case_rule list" where
  "lower_latin_additional =
   [(7680, 7828, 2, [7681]), (7838, 7838, 1, [223]), (7840, 7934, 2, [7841])]"

definition lower_greek_extended :: "case_rule list" where
  "lower_greek_extended =
   [(7944, 7951, 1, [7936]), (7960, 7965, 1, [7952]), (7976, 7983, 1, [7968]),
    (7992, 7999, 1, [7984]), (8008, 8013, 1, [8000]), (8025, 8031, 2, [8017]),
    (8040, 8047, 1, [8032]), (8072, 8079, 1, [8064]), (8088, 8095, 1, [8080]),
    (8104, 8111, 1, [8096]), (8120, 8121, 1, [8112]), (8122, 8123, 1, [8048]),
    (8124, 8124, 1, [8115]), (8136, 8139, 1, [8050]), (8140, 8140, 1, [8131]),
    (8152, 8153, 1, [8144]), (8154, 8155, 1, [8054]), (8168, 8169, 1, [8160]),
    (8170, 8171, 1, [8058]), (8172, 8172, 1, [8165]), (8184, 8185, 1, [8056]),
    (8186, 8187, 1, [8060]), (8188, 8188, 1, [8179])]"

definition lower_symbols :: "case_rule list" where
  "lower_symbols =
   [(8486, 8486, 1, [969]), (8490, 8490, 1, [107]), (8491, 8491, 1, [229]),
    (8498, 8498, 1, [8526]), (8544, 8559, 1, [8560]), (8579, 8579, 1, [8580]),
    (9398, 9423, 1, [9424])]"

definition lower_glagolitic_coptic :: "case_rule list" where
  "lower_glagolitic_coptic =
   [(11264, 11311, 1, [11312]), (11360, 11360, 1, [11361]), (11362, 11362, 1, [619]),
    (11363, 11363, 1, [7549]), (11364, 11364, 1, [637]), (11367, 11371, 2, [11368]),
    (11373, 11373, 1, [593]), (11374, 11374, 1, [625]), (11375, 11375, 1, [592]),
    (11376, 11376, 1, [594]), (11378, 11378, 1, [11379]), (11381, 11381, 1, [11382]),
    (11390, 11391, 1, [575]), (11392, 11490, 2, [11393]), (11499, 11501, 2, [11500]),
    (11506, 11506, 1, [11507])]"

definition lower_latin_d_1 :: "case_rule list" where
  "lower_latin_d_1 =
   [(42560, 42604, 2, [42561]), (42624, 42650, 2, [42625]), (42786, 42798, 2, [42787]),
    (42802, 42862, 2, [42803]), (42873, 42875, 2, [42874]), (42877, 42877, 1, [7545]),
    (42878, 42886, 2, [42879]), (42891, 42891, 1, [42892]), (42893, 42893, 1, [613]),
    (42896, 42898, 2, [42897]), (42902, 42920, 2, [42903]), (42922, 42922, 1, [614]),
    (42923, 42923, 1, [604]), (42924, 42924, 1, [609])]"

definition lower_latin_d_2 :: "case_rule list" where
  "lower_latin_d_2 =
   [(42925, 42925, 1, [620]), (42926, 42926, 1, [618]), (42928, 42928, 1, [670]),
    (42929, 42929, 1, [647]), (42930, 42930, 1, [669]), (42931, 42931, 1, [43859]),
    (42932, 42946, 2, [42933]), (42948, 42948, 1, [42900]), (42949, 42949, 1, [642]),
    (42950, 42950, 1, [7566]), (42951, 42953, 2, [42952]), (42960, 42960, 1, [42961]),
    (42966, 42968, 2, [42967]), (42997, 42997, 1, [42998])]"

definition lower_presentation :: "case_rule list" where
  "lower_presentation =
   [(65313, 65338, 1, [65345])]"

definition lower_supplementary :: "case_rule list" where
  "lower_supplementary =
   [(66560, 66599, 1, [66600]), (66736, 66771, 1, [66776]), (66928, 66938, 1, [66967]),
    (66940, 66954, 1, [66979]), (66956, 66962, 1, [66995]), (66964, 66965, 1, [67003]),
    (68736, 68786, 1, [68800]), (71840, 71871, 1, [71872]), (93760, 93791, 1, [93792]),
    (125184, 125217, 1, [125218])]"

definition lower_table :: "case_rule list" where
  "lower_table =
     lower_latin_1 @ lower_latin_2 @ lower_latin_3 @ lower_greek @ lower_cyrillic @
     lower_armenian_georgian @ lower_latin_additional @ lower_greek_extended @
     lower_symbols @ lower_glagolitic_coptic @ lower_latin_d_1 @ lower_latin_d_2 @
     lower_presentation @ lower_supplementary"


definition to_upper_full :: "codepoint \<Rightarrow> pystr" where
  "to_upper_full c = case_map upper_table c"

definition to_lower_full :: "codepoint \<Rightarrow> pystr" where
  "to_lower_full c = case_map lower_table c"

text \<open>\<^verbatim>\<open>str.upper()\<close>: the uppercase mappings of the code points, concatenated.\<close>

definition str_upper :: "pystr \<Rightarrow> pystr" where
  "str_upper s = concat (map to_upper_full s)"

text \<open>
  \<^verbatim>\<open>str.lower()\<close> does the same with the lowercase mappings, except at the capital
  sigma U+03A3: it becomes the final sigma U+03C2 when it ends a word, and the small
  sigma U+03C3 otherwise. It ends a word when, skipping case-ignorable code
  points, a cased code point comes before it and none comes after it. \<open>before\<close> holds
  the code points of the string in front of the one being converted, \<open>after\<close> those
  behind it.
\<close>

definition final_sigma :: "pylib \<Rightarrow> pystr \<Rightarrow> pystr \<Rightarrow> bool" where
  "final_sigma L before after =
     (case dropWhile (case_ignorable L) (rev before) of
        [] \<Rightarrow> False
      | p # _ \<Rightarrow>
          (if cased L p then
             (case dropWhile (case_ignorable L) after of
                [] \<Rightarrow> True
              | n # _ \<Rightarrow> \<not> cased L n)
           else False))"

definition lower_ucs4 :: "pylib \<Rightarrow> pystr \<Rightarrow> codepoint \<Rightarrow> pystr \<Rightarrow> pystr" where
  "lower_ucs4 L before c after =
     (if c = 931 then [if final_sigma L before after then 962 else 963]
      else to_lower_full c)"

fun do_lower :: "pylib \<Rightarrow> pystr \<Rightarrow> pystr \<Rightarrow> pystr" where
  "do_lower L before [] = []"
| "do_lower L before (c # after) =
     lower_ucs4 L before c after @ do_lower L (before @ [c]) after"

definition str_lower :: "pylib \<Rightarrow> pystr \<Rightarrow> pystr" where
  "str_lower L s = do_lower L [] s"

text \<open>
  A code point that \<^verbatim>\<open>str.lower()\<close> leaves alone: it is not the capital sigma and
  its lowercase mapping is itself.
\<close>

definition lower_fixed :: "codepoint \<Rightarrow> bool" where
  "lower_fixed d = (d \<noteq> 931 \<and> to_lower_full d = [d])"

section \<open>Methods of the values\<close>

text \<open>
  Attribute lookup and method call \<^verbatim>\<open>v.upper()\<close>, \<^verbatim>\<open>v.lower()\<close>: only \<^verbatim>\<open>str\<close> has
  these methods among the values of JSON; on every other value the lookup raises
  \<^verbatim>\<open>AttributeError\<close>.
\<close>

fun call_upper :: "pyval \<Rightarrow> pyexc + pyval" where
  "call_upper (PyStr s) = Inr (PyStr (str_upper s))"
| "call_upper v = Inl AttributeError"

fun call_lower :: "pylib \<Rightarrow> pyval \<Rightarrow> pyexc + pyval" where
  "call_lower L (PyStr s) = Inr (PyStr (str_lower L s))"
| "call_lower L v = Inl AttributeError"

text \<open>
  The slice \<^verbatim>\<open>v[::-1]\<close>: a \<^verbatim>\<open>str\<close> and a \<^verbatim>\<open>list\<close> are sequences and come back
  reversed; a \<^verbatim>\<open>dict\<close> takes the slice as a key (\<^verbatim>\<open>KeyError\<close>, or \<^verbatim>\<open>TypeError\<close>
  where a slice is unhashable); the other values are not subscriptable.
\<close>

fun slice_reversed :: "pylib \<Rightarrow> pyval \<Rightarrow> pyexc + pyval" where
  "slice_reversed L (PyStr s) = Inr (PyStr (rev s))"
| "slice_reversed L (PyList xs) = Inr (PyList (rev xs))"
| "slice_reversed L (PyDict d) = Inl (if slice_hashable L then KeyError else TypeError)"
| "slice_reversed L v = Inl TypeError"

text \<open>
  \<^verbatim>\<open>v.get(key, default)\<close>: a method of \<^verbatim>\<open>dict\<close> only. A key that is present
  gives its value, also when that value is \<^verbatim>\<open>None\<close>.
\<close>

fun call_get :: "pyval \<Rightarrow> pystr \<Rightarrow> pyval \<Rightarrow> pyexc + pyval" where
  "call_get (PyDict d) key dflt = Inr (case map_of d key of None \<Rightarrow> dflt | Some v \<Rightarrow> v)"
| "call_get v key dflt = Inl AttributeError"

section \<open>The program\<close>

text \<open>
  The two streams of the process. Standard output holds the characters written;
  standard error holds the lines the program writes and the traceback the
  interpreter writes for an exception that nothing catches.
\<close>

datatype diagnostic = Line pystr | Traceback pyexc

record streams =
  stdout :: pystr
  stderr :: "diagnostic list"

definition print_out :: "pystr \<Rightarrow> streams \<Rightarrow> streams" where
  "print_out s w = w\<lparr>stdout := stdout w @ s @ [10]\<rparr>"

definition print_err :: "pystr \<Rightarrow> streams \<Rightarrow> streams" where
  "print_err s w = w\<lparr>stderr := stderr w @ [Line s]\<rparr>"

text \<open>
  Lines 14 to 21 of \<^verbatim>\<open>main\<close>, the dispatch on \<^verbatim>\<open>operation\<close>. The comparison
  \<^verbatim>\<open>operation == "upper"\<close> holds for the string \<^verbatim>\<open>"upper"\<close> and for no other value.
\<close>

definition transform :: "pylib \<Rightarrow> pyval \<Rightarrow> pyval \<Rightarrow> pyexc + pyval" where
  "transform L operation text =
     (if operation = PyStr (py ''upper'') then call_upper text
      else if operation = PyStr (py ''lower'') then call_lower L text
      else if operation = PyStr (py ''reverse'') then slice_reversed L text
      else Inr text)"

text \<open>
  \<^verbatim>\<open>main()\<close>, with \<^verbatim>\<open>sys.argv\<close> as its argument. The result is \<open>Inl e\<close> when the
  exception \<open>e\<close> leaves \<^verbatim>\<open>main\<close> (\<^verbatim>\<open>sys.exit(1)\<close> raises \<^verbatim>\<open>SystemExit\<close>), together
  with the streams as written so far.
\<close>

definition main :: "pylib \<Rightarrow> pystr list \<Rightarrow> streams \<Rightarrow> (pyexc + unit) \<times> streams" where
  "main L argv w =
     (if length argv < 2 then
        (case argv of
           [] \<Rightarrow> (Inl IndexError, w)
         | argv0 # _ \<Rightarrow>
             (Inl (SystemExit 1),
              print_err (py ''Usage: '' @ argv0 @ py '' <json_input>'') w))
      else
        (case json_loads L (argv ! 1) of
           None \<Rightarrow> (Inl JSONDecodeError, w)
         | Some input_data \<Rightarrow>
            (case call_get input_data (py ''text'') (PyStr []) of
               Inl e \<Rightarrow> (Inl e, w)
             | Inr text \<Rightarrow>
                (case call_get input_data (py ''operation'') (PyStr (py ''upper'')) of
                   Inl e \<Rightarrow> (Inl e, w)
                 | Inr operation \<Rightarrow>
                    (case transform L operation text of
                       Inl e \<Rightarrow> (Inl e, w)
                     | Inr result \<Rightarrow>
                        (Inr (),
                         print_out (json_dumps L (PyDict [(py ''result'', result)])) w))))))"

text \<open>
  The process: the interpreter runs \<^verbatim>\<open>main()\<close> on empty streams. A normal return
  ends with status 0, \<^verbatim>\<open>SystemExit n\<close> with status \<open>n\<close> and no traceback, any other
  exception with a traceback on standard error and status 1.
\<close>

record process =
  out :: pystr
  err :: "diagnostic list"
  status :: int

definition script :: "pylib \<Rightarrow> pystr list \<Rightarrow> process" where
  "script L argv =
     (case main L argv \<lparr>stdout = [], stderr = []\<rparr> of
        (Inr u, w) \<Rightarrow> \<lparr>out = stdout w, err = stderr w, status = 0\<rparr>
      | (Inl (SystemExit n), w) \<Rightarrow> \<lparr>out = stdout w, err = stderr w, status = n\<rparr>
      | (Inl e, w) \<Rightarrow> \<lparr>out = stdout w, err = stderr w @ [Traceback e], status = 1\<rparr>)"

section \<open>Well-formed JSON\<close>

text \<open>
  The grammar of JSON (RFC 8259) as a recogniser on code points, to tell the documents
  that are well-formed JSON from those that \<^verbatim>\<open>json.loads\<close> merely accepts. A function
  for a construct takes the input at its start and gives the input that follows it, or
  \<open>None\<close> where the construct is not there. \<open>json_chars\<close> reads a string after its
  opening quote, \<open>json_elements\<close> and \<open>json_members\<close> read a non-empty array and object
  after the opening bracket. Each nested call takes one from the bound \<open>n\<close>; a
  document needs a bound of at most its length plus one.
\<close>

definition json_ws :: "codepoint \<Rightarrow> bool" where
  "json_ws c = (c = 32 \<or> c = 9 \<or> c = 10 \<or> c = 13)"

definition json_digit :: "codepoint \<Rightarrow> bool" where
  "json_digit c = (48 \<le> c \<and> c \<le> 57)"

definition json_hexdig :: "codepoint \<Rightarrow> bool" where
  "json_hexdig c = (json_digit c \<or> (65 \<le> c \<and> c \<le> 70) \<or> (97 \<le> c \<and> c \<le> 102))"

definition json_escape :: "codepoint \<Rightarrow> bool" where
  "json_escape c =
     (c = 34 \<or> c = 92 \<or> c = 47 \<or> c = 98 \<or> c = 102 \<or> c = 110 \<or> c = 114 \<or> c = 116)"

definition skip_ws :: "pystr \<Rightarrow> pystr" where
  "skip_ws s = dropWhile json_ws s"

fun json_chars :: "pystr \<Rightarrow> pystr option" where
  "json_chars [] = None"
| "json_chars (c # cs) =
     (if c = 34 then Some cs
      else if c = 92 then
        (case cs of
           [] \<Rightarrow> None
         | e # es \<Rightarrow>
             if e = 117 then
               (case es of
                  h1 # h2 # h3 # h4 # r \<Rightarrow>
                    if json_hexdig h1 \<and> json_hexdig h2 \<and> json_hexdig h3 \<and> json_hexdig h4
                    then json_chars r else None
                | _ \<Rightarrow> None)
             else if json_escape e then json_chars es
             else None)
      else if c < 32 then None
      else json_chars cs)"

definition json_digits1 :: "pystr \<Rightarrow> pystr option" where
  "json_digits1 s =
     (case s of [] \<Rightarrow> None
      | d # ds \<Rightarrow> if json_digit d then Some (dropWhile json_digit ds) else None)"

definition json_int :: "pystr \<Rightarrow> pystr option" where
  "json_int s =
     (case s of [] \<Rightarrow> None
      | d # ds \<Rightarrow>
          if d = 48 then Some ds
          else if json_digit d then Some (dropWhile json_digit ds)
          else None)"

definition json_frac :: "pystr \<Rightarrow> pystr option" where
  "json_frac s =
     (case s of [] \<Rightarrow> Some s
      | c # cs \<Rightarrow> if c = 46 then json_digits1 cs else Some s)"

definition json_exp :: "pystr \<Rightarrow> pystr option" where
  "json_exp s =
     (case s of [] \<Rightarrow> Some s
      | c # cs \<Rightarrow>
          if c = 101 \<or> c = 69 then
            (case cs of [] \<Rightarrow> None
             | g # gs \<Rightarrow> if g = 43 \<or> g = 45 then json_digits1 gs else json_digits1 cs)
          else Some s)"

definition json_number :: "pystr \<Rightarrow> pystr option" where
  "json_number s =
     (case json_int (case s of [] \<Rightarrow> s | c # cs \<Rightarrow> if c = 45 then cs else s) of
        None \<Rightarrow> None
      | Some s1 \<Rightarrow> (case json_frac s1 of None \<Rightarrow> None | Some s2 \<Rightarrow> json_exp s2))"

definition json_literal :: "string \<Rightarrow> pystr \<Rightarrow> pystr option" where
  "json_literal w s =
     (if take (length w) s = py w then Some (drop (length w) s) else None)"

fun json_value :: "nat \<Rightarrow> pystr \<Rightarrow> pystr option"
  and json_elements :: "nat \<Rightarrow> pystr \<Rightarrow> pystr option"
  and json_members :: "nat \<Rightarrow> pystr \<Rightarrow> pystr option" where
  "json_value 0 s = None"
| "json_value (Suc n) s =
     (case s of
        [] \<Rightarrow> None
      | c # cs \<Rightarrow>
          if c = 123 then
            (case skip_ws cs of
               [] \<Rightarrow> None
             | x # xs \<Rightarrow> if x = 125 then Some xs else json_members n (x # xs))
          else if c = 91 then
            (case skip_ws cs of
               [] \<Rightarrow> None
             | x # xs \<Rightarrow> if x = 93 then Some xs else json_elements n (x # xs))
          else if c = 34 then json_chars cs
          else if c = 45 \<or> json_digit c then json_number s
          else if c = 116 then json_literal ''true'' s
          else if c = 102 then json_literal ''false'' s
          else if c = 110 then json_literal ''null'' s
          else None)"
| "json_elements 0 s = None"
| "json_elements (Suc n) s =
     (case json_value n s of
        None \<Rightarrow> None
      | Some r \<Rightarrow>
          (case skip_ws r of
             [] \<Rightarrow> None
           | x # xs \<Rightarrow>
               if x = 44 then json_elements n (skip_ws xs)
               else if x = 93 then Some xs
               else None))"
| "json_members 0 s = None"
| "json_members (Suc n) s =
     (case s of
        [] \<Rightarrow> None
      | q # cs \<Rightarrow>
          if q = 34 then
            (case json_chars cs of
               None \<Rightarrow> None
             | Some r \<Rightarrow>
                 (case skip_ws r of
                    [] \<Rightarrow> None
                  | x # xs \<Rightarrow>
                      if x = 58 then
                        (case json_value n (skip_ws xs) of
                           None \<Rightarrow> None
                         | Some r' \<Rightarrow>
                             (case skip_ws r' of
                                [] \<Rightarrow> None
                              | y # ys \<Rightarrow>
                                  if y = 44 then json_members n (skip_ws ys)
                                  else if y = 125 then Some ys
                                  else None))
                      else None))
          else None)"

definition wellformed_json :: "pystr \<Rightarrow> bool" where
  "wellformed_json s =
     (case json_value (Suc (length s)) (skip_ws s) of
        None \<Rightarrow> False
      | Some r \<Rightarrow> skip_ws r = [])"

section \<open>An excerpt of the library\<close>

text \<open>
  The theorems below hold for every library. To instantiate them at concrete
  requests, \<open>excerpt\<close> is the library restricted to a few documents: the requests of
  the scenarios, \<^verbatim>\<open>{bad\<close> (rejected, so absent from the table), a document with the
  literal \<^verbatim>\<open>Infinity\<close> (which \<^verbatim>\<open>json.loads\<close> decodes to the float of that value), what
  \<^verbatim>\<open>json.dumps\<close> gives on their results, and the two character properties on ASCII.
\<close>

definition excerpt_loads :: "(pystr \<times> pyval) list" where
  \<open>excerpt_loads =
    [(py ''{"text": "Hello", "operation": "upper"}'',
        PyDict [(py ''text'', PyStr (py ''Hello'')), (py ''operation'', PyStr (py ''upper''))]),
     (py ''{"text": "Hello", "operation": "lower"}'',
        PyDict [(py ''text'', PyStr (py ''Hello'')), (py ''operation'', PyStr (py ''lower''))]),
     (py ''{"text": "Hello", "operation": "reverse"}'',
        PyDict [(py ''text'', PyStr (py ''Hello'')), (py ''operation'', PyStr (py ''reverse''))]),
     (py ''{"text": "Hello"}'',
        PyDict [(py ''text'', PyStr (py ''Hello''))]),
     (py ''{"operation": "reverse"}'',
        PyDict [(py ''operation'', PyStr (py ''reverse''))]),
     (py ''{"operation": "reverse", "text": ""}'',
        PyDict [(py ''operation'', PyStr (py ''reverse'')), (py ''text'', PyStr [])]),
     (py ''{"text": "Hi", "operation": "bogus"}'',
        PyDict [(py ''text'', PyStr (py ''Hi'')), (py ''operation'', PyStr (py ''bogus''))]),
     (py ''{"text": [1, 2], "operation": "bogus"}'',
        PyDict [(py ''text'', PyList [PyInt 1, PyInt 2]), (py ''operation'', PyStr (py ''bogus''))]),
     (py ''{"text": [1, 2], "operation": "lower"}'',
        PyDict [(py ''text'', PyList [PyInt 1, PyInt 2]), (py ''operation'', PyStr (py ''lower''))]),
     (py ''[1, 2]'', PyList [PyInt 1, PyInt 2]),
     (py ''{"text": "Hi", "operation": "bogus", "x": Infinity}'',
        PyDict [(py ''text'', PyStr (py ''Hi'')), (py ''operation'', PyStr (py ''bogus'')),
                (py ''x'', PyFloat 0x7FF0000000000000)])]\<close>

definition excerpt_dumps :: "(pyval \<times> pystr) list" where
  \<open>excerpt_dumps =
    [(PyDict [(py ''result'', PyStr (py ''HELLO''))], py ''{"result": "HELLO"}''),
     (PyDict [(py ''result'', PyStr (py ''hello''))], py ''{"result": "hello"}''),
     (PyDict [(py ''result'', PyStr (py ''olleH''))], py ''{"result": "olleH"}''),
     (PyDict [(py ''result'', PyStr (py ''Hi''))], py ''{"result": "Hi"}''),
     (PyDict [(py ''result'', PyStr [])], py ''{"result": ""}''),
     (PyDict [(py ''result'', PyList [PyInt 1, PyInt 2])], py ''{"result": [1, 2]}'')]\<close>

definition excerpt :: pylib where
  "excerpt =
     \<lparr>json_loads = map_of excerpt_loads,
      json_dumps = (\<lambda>v. case map_of excerpt_dumps v of None \<Rightarrow> [] | Some s \<Rightarrow> s),
      cased = (\<lambda>c. (65 \<le> c \<and> c \<le> 90) \<or> (97 \<le> c \<and> c \<le> 122)),
      case_ignorable = (\<lambda>c. c = 39 \<or> c = 46 \<or> c = 58 \<or> c = 94 \<or> c = 96),
      slice_hashable = False\<rparr>"

section \<open>Deciding that a table of case mappings is closed\<close>

text \<open>
  A table is closed when every code point it produces is mapped to itself. The
  functions of this section decide it by computation. An index cuts the table into
  blocks, each with a lower and an upper bound of the code points its rules cover, so
  that a block is looked into only when a code point can lie in it. The images of a
  rule form the interval \<open>a .. b\<close> in steps of \<open>st\<close>; \<open>sep\<close> holds when no code point
  of it is covered by the rule given: the two lie apart, or the interval is a single
  code point that the rule skips, or both advance in steps of 2 on different parities.
\<close>

type_synonym case_index = "(codepoint \<times> codepoint \<times> case_rule list) list"

definition index_rules :: "case_index \<Rightarrow> case_rule list" where
  "index_rules idx = concat (map (\<lambda>(L, H, B). B) idx)"

fun within :: "nat \<Rightarrow> nat \<Rightarrow> case_rule list \<Rightarrow> bool" where
  "within L H [] = True"
| "within L H ((lo, hi, st, ts) # rs) =
     (if L \<le> lo then (if hi \<le> H then within L H rs else False) else False)"

fun index_ok :: "case_index \<Rightarrow> bool" where
  "index_ok [] = True"
| "index_ok ((L, H, B) # bs) = (if within L H B then index_ok bs else False)"

fun find_idx :: "codepoint \<Rightarrow> case_index \<Rightarrow> case_rule option" where
  "find_idx c [] = None"
| "find_idx c ((L, H, B) # bs) =
     (if c < L then find_idx c bs
      else if H < c then find_idx c bs
      else (case find (\<lambda>r. covers r c) B of None \<Rightarrow> find_idx c bs | Some r \<Rightarrow> Some r))"

fun sep :: "nat \<Rightarrow> nat \<Rightarrow> nat \<Rightarrow> case_rule \<Rightarrow> bool" where
  "sep a b st (lo, hi, st', ts) =
     (if hi < a then True
      else if b < lo then True
      else if a = b then (if (a - lo) mod st' = 0 then False else True)
      else if st = 2 then
        (if st' = 2 then (if a mod 2 = lo mod 2 then False else True) else False)
      else False)"

fun clear :: "nat \<Rightarrow> nat \<Rightarrow> nat \<Rightarrow> case_rule list \<Rightarrow> bool" where
  "clear a b st [] = True"
| "clear a b st (r # rs) = (if sep a b st r then clear a b st rs else False)"

fun clear_blocks :: "nat \<Rightarrow> nat \<Rightarrow> nat \<Rightarrow> case_index \<Rightarrow> bool" where
  "clear_blocks a b st [] = True"
| "clear_blocks a b st ((L, H, B) # bs) =
     (if H < a then clear_blocks a b st bs
      else if b < L then clear_blocks a b st bs
      else if clear a b st B then clear_blocks a b st bs
      else False)"

fun images_clear :: "case_index \<Rightarrow> nat \<Rightarrow> nat \<Rightarrow> pystr \<Rightarrow> bool" where
  "images_clear idx w st [] = True"
| "images_clear idx w st (t # ts) =
     (if clear_blocks t (t + w) st idx then images_clear idx w st ts else False)"

fun closed_rules :: "case_index \<Rightarrow> case_rule list \<Rightarrow> bool" where
  "closed_rules idx [] = True"
| "closed_rules idx ((lo, hi, st, ts) # rs) =
     (if images_clear idx (hi - lo) st ts then closed_rules idx rs else False)"

text \<open>The indexes of the two tables.\<close>

definition upper_index :: "(codepoint \<times> codepoint \<times> case_rule list) list" where
  "upper_index =
    [(97, 424, upper_latin_1), (429, 591, upper_latin_2), (592, 619, upper_ipa_1),
     (620, 837, upper_ipa_2), (881, 1019, upper_greek), (1072, 1327, upper_cyrillic),
     (1377, 7304, upper_armenian_georgian), (7545, 7935, upper_latin_additional),
     (7936, 8071, upper_greek_extended_1), (8072, 8096, upper_greek_extended_2),
     (8097, 8131, upper_greek_extended_3), (8132, 8188, upper_greek_extended_4),
     (8526, 9449, upper_symbols), (11312, 11565, upper_glagolitic_coptic),
     (42561, 43967, upper_latin_d), (64256, 65370, upper_presentation),
     (66600, 125251, upper_supplementary)]"


definition lower_index :: "(codepoint \<times> codepoint \<times> case_rule list) list" where
  "lower_index =
    [(65, 403, lower_latin_1), (404, 453, lower_latin_2), (455, 590, lower_latin_3),
     (880, 1023, lower_greek), (1024, 1326, lower_cyrillic),
     (1329, 7359, lower_armenian_georgian), (7680, 7934, lower_latin_additional),
     (7944, 8188, lower_greek_extended), (8486, 9423, lower_symbols),
     (11264, 11506, lower_glagolitic_coptic), (42560, 42924, lower_latin_d_1),
     (42925, 42997, lower_latin_d_2), (65313, 65338, lower_presentation),
     (66560, 125217, lower_supplementary)]"


section \<open>Soundness of the decision\<close>

lemma sep_sound:
  assumes "sep a b st r" "a \<le> d" "d \<le> b" "(d - a) mod st = 0"
  shows "\<not> covers r d"
proof -
  obtain lo hi st' ts where r: "r = (lo, hi, st', ts)" by (cases r) auto
  show ?thesis
  proof (cases "hi < a \<or> b < lo")
    case True
    then show ?thesis using assms(2,3) r by auto
  next
    case out: False
    show ?thesis
    proof (cases "a = b")
      case True
      then have "d = a" using assms(2,3) by simp
      then show ?thesis using assms(1) out True r by (auto split: if_splits)
    next
      case False
      then have par: "st = 2" "st' = 2" "a mod 2 \<noteq> lo mod 2"
        using assms(1) out r by (auto split: if_splits)
      have "d mod 2 = a mod 2" using assms(2,4) par(1) by presburger
      then have "lo \<le> d \<Longrightarrow> (d - lo) mod 2 \<noteq> 0" using par(3) by presburger
      then show ?thesis using par(2) r by auto
    qed
  qed
qed

lemma clear_sound:
  assumes "clear a b st rs" "a \<le> d" "d \<le> b" "(d - a) mod st = 0" "r \<in> set rs"
  shows "\<not> covers r d"
  using assms
  by (induction rs) (auto split: if_splits dest: sep_sound simp del: sep.simps covers.simps)

lemma within_bounds:
  assumes "within L H rs" "(lo, hi, st, ts) \<in> set rs"
  shows "L \<le> lo \<and> hi \<le> H"
  using assms by (induction L H rs rule: within.induct) (auto split: if_splits)

lemma within_find_None:
  assumes "within L H rs" "c < L \<or> H < c"
  shows "find (\<lambda>r. covers r c) rs = None"
proof -
  have "\<not> covers r c" if "r \<in> set rs" for r
  proof -
    obtain lo hi st ts where r: "r = (lo, hi, st, ts)" by (cases r) auto
    have "L \<le> lo \<and> hi \<le> H" using within_bounds assms(1) that r by blast
    then show ?thesis using assms(2) r by auto
  qed
  then show ?thesis by (simp add: find_None_iff del: covers.simps)
qed

lemma find_append_case:
  "find P (xs @ ys) = (case find P xs of None \<Rightarrow> find P ys | Some x \<Rightarrow> Some x)"
  by (induction xs) auto

lemma find_idx_correct:
  assumes "index_ok idx"
  shows "find_idx c idx = find (\<lambda>r. covers r c) (index_rules idx)"
  using assms
proof (induction idx)
  case Nil
  then show ?case by (simp add: index_rules_def)
next
  case (Cons x idx)
  obtain L H B where x: "x = (L, H, B)" by (cases x) auto
  have ok: "within L H B" "index_ok idx"
    using Cons.prems x by (auto split: if_splits)
  have rules: "index_rules (x # idx) = B @ index_rules idx"
    using x by (simp add: index_rules_def)
  show ?case
  proof (cases "c < L \<or> H < c")
    case True
    then have "find (\<lambda>r. covers r c) B = None" using within_find_None ok(1) by blast
    then show ?thesis using True Cons.IH ok(2) x rules by (auto simp: find_append_case)
  next
    case False
    then show ?thesis using Cons.IH ok(2) x rules
      by (auto simp: find_append_case split: option.splits)
  qed
qed

lemma clear_blocks_sound:
  assumes "index_ok idx" "clear_blocks a b st idx" "a \<le> d" "d \<le> b" "(d - a) mod st = 0"
    and "r \<in> set (index_rules idx)"
  shows "\<not> covers r d"
  using assms(1,2,6)
proof (induction idx)
  case Nil
  then show ?case by (simp add: index_rules_def)
next
  case (Cons x idx)
  obtain L H B where x: "x = (L, H, B)" by (cases x) auto
  have ok: "within L H B" "index_ok idx"
    using Cons.prems(1) x by (auto split: if_splits)
  consider (here) "r \<in> set B" | (later) "r \<in> set (index_rules idx)"
    using Cons.prems(3) x by (auto simp: index_rules_def)
  then show ?case
  proof cases
    case here
    obtain lo hi st' ts where r: "r = (lo, hi, st', ts)" by (cases r) auto
    have bnd: "L \<le> lo \<and> hi \<le> H" using within_bounds ok(1) here r by blast
    show ?thesis
    proof (cases "H < a \<or> b < L")
      case True
      then show ?thesis using bnd r assms(3,4) by auto
    next
      case False
      then have "clear a b st B" using Cons.prems(2) x by (auto split: if_splits)
      then show ?thesis by (rule clear_sound [OF _ assms(3,4,5) here])
    qed
  next
    case later
    have "clear_blocks a b st idx" using Cons.prems(2) x by (auto split: if_splits)
    then show ?thesis using Cons.IH ok(2) later by blast
  qed
qed

lemma images_clear_sound:
  assumes "images_clear idx w st ts" "t \<in> set ts"
  shows "clear_blocks t (t + w) st idx"
  using assms by (induction ts) (auto split: if_splits)

lemma closed_rules_sound:
  assumes "closed_rules idx rs" "(lo, hi, st, ts) \<in> set rs"
  shows "images_clear idx (hi - lo) st ts"
  using assms by (induction idx rs rule: closed_rules.induct) (auto split: if_splits)

lemma closed_rules_append:
  "closed_rules idx (xs @ ys) = (closed_rules idx xs \<and> closed_rules idx ys)"
  by (induction idx xs rule: closed_rules.induct) auto

lemma closed_table_fixed:
  assumes "index_ok idx" "closed_rules idx tbl" "index_rules idx = tbl"
    and "d \<in> set (case_map tbl c)"
  shows "case_map tbl d = [d]"
proof (cases "find (\<lambda>r. covers r c) tbl")
  case None
  then show ?thesis using assms(4) by (simp add: case_map_def)
next
  case (Some r)
  obtain lo hi st ts where r: "r = (lo, hi, st, ts)" by (cases r) auto
  have rin: "r \<in> set tbl" and cov: "covers r c"
    using Some by (auto simp: find_Some_iff)
  from assms(4) Some r obtain t where t: "t \<in> set ts" and d: "d = t + (c - lo)"
    by (auto simp: case_map_def)
  have "images_clear idx (hi - lo) st ts"
    using closed_rules_sound assms(2) rin r by blast
  then have cb: "clear_blocks t (t + (hi - lo)) st idx"
    using images_clear_sound t by blast
  have rng: "t \<le> d" "d \<le> t + (hi - lo)" "(d - t) mod st = 0"
    using cov r d by auto
  have "\<forall>s \<in> set tbl. \<not> covers s d"
    using clear_blocks_sound [OF assms(1) cb rng] assms(3) by blast
  then have "find (\<lambda>r. covers r d) tbl = None"
    by (simp add: find_None_iff del: covers.simps)
  then show ?thesis by (simp add: case_map_def)
qed

text \<open>
  The decision runs in the simplifier. These rules keep it from walking through a
  table again at every step: a table is unfolded where a function is applied to it, and
  nowhere else.
\<close>

lemma clear_arg: "rs = rs' \<Longrightarrow> clear a b st rs = clear a b st rs'"
  by simp

lemma clear_blocks_arg: "idx = idx' \<Longrightarrow> clear_blocks a b st idx = clear_blocks a b st idx'"
  by simp

lemma within_arg: "rs = rs' \<Longrightarrow> within L H rs = within L H rs'"
  by simp

lemma find_idx_arg: "idx = idx' \<Longrightarrow> find_idx c idx = find_idx c idx'"
  by simp

lemma clear_cong: "clear a b st rs = clear a b st rs"
  by (rule refl)

lemma clear_blocks_cong:
  "a = a' \<Longrightarrow> b = b' \<Longrightarrow> clear_blocks a b st idx = clear_blocks a' b' st idx"
  by simp

lemma within_cong: "within L H rs = within L H rs"
  by (rule refl)

lemma images_clear_cong: "w = w' \<Longrightarrow> images_clear idx w st ts = images_clear idx w' st ts"
  by simp

lemma closed_rules_cong: "closed_rules idx rs = closed_rules idx rs"
  by (rule refl)

lemma index_ok_cong: "index_ok idx = index_ok idx"
  by (rule refl)

lemma find_idx_cong: "find_idx c idx = find_idx c idx"
  by (rule refl)

lemmas walk_cong = clear_cong clear_blocks_cong within_cong images_clear_cong
  closed_rules_cong index_ok_cong find_idx_cong if_weak_cong

section \<open>The two tables are closed\<close>

lemmas upper_unfold =
  upper_index_def [THEN clear_blocks_arg] upper_latin_1_def [THEN clear_arg]
  upper_latin_1_def [THEN within_arg] upper_latin_2_def [THEN clear_arg]
  upper_latin_2_def [THEN within_arg] upper_ipa_1_def [THEN clear_arg]
  upper_ipa_1_def [THEN within_arg] upper_ipa_2_def [THEN clear_arg]
  upper_ipa_2_def [THEN within_arg] upper_greek_def [THEN clear_arg]
  upper_greek_def [THEN within_arg] upper_cyrillic_def [THEN clear_arg]
  upper_cyrillic_def [THEN within_arg] upper_armenian_georgian_def [THEN clear_arg]
  upper_armenian_georgian_def [THEN within_arg] upper_latin_additional_def [THEN clear_arg]
  upper_latin_additional_def [THEN within_arg] upper_greek_extended_1_def [THEN clear_arg]
  upper_greek_extended_1_def [THEN within_arg] upper_greek_extended_2_def [THEN clear_arg]
  upper_greek_extended_2_def [THEN within_arg] upper_greek_extended_3_def [THEN clear_arg]
  upper_greek_extended_3_def [THEN within_arg] upper_greek_extended_4_def [THEN clear_arg]
  upper_greek_extended_4_def [THEN within_arg] upper_symbols_def [THEN clear_arg]
  upper_symbols_def [THEN within_arg] upper_glagolitic_coptic_def [THEN clear_arg]
  upper_glagolitic_coptic_def [THEN within_arg] upper_latin_d_def [THEN clear_arg]
  upper_latin_d_def [THEN within_arg] upper_presentation_def [THEN clear_arg]
  upper_presentation_def [THEN within_arg] upper_supplementary_def [THEN clear_arg]
  upper_supplementary_def [THEN within_arg]

lemma upper_index_ok: "index_ok upper_index"
  unfolding upper_index_def by (simp add: upper_unfold cong: walk_cong)

lemma upper_index_rules: "index_rules upper_index = upper_table"
  by (simp add: index_rules_def upper_index_def upper_table_def)

lemma upper_latin_1_closed: "closed_rules upper_index upper_latin_1"
  unfolding upper_latin_1_def by (simp add: upper_unfold cong: walk_cong)

lemma upper_latin_2_closed: "closed_rules upper_index upper_latin_2"
  unfolding upper_latin_2_def by (simp add: upper_unfold cong: walk_cong)

lemma upper_ipa_1_closed: "closed_rules upper_index upper_ipa_1"
  unfolding upper_ipa_1_def by (simp add: upper_unfold cong: walk_cong)

lemma upper_ipa_2_closed: "closed_rules upper_index upper_ipa_2"
  unfolding upper_ipa_2_def by (simp add: upper_unfold cong: walk_cong)

lemma upper_greek_closed: "closed_rules upper_index upper_greek"
  unfolding upper_greek_def by (simp add: upper_unfold cong: walk_cong)

lemma upper_cyrillic_closed: "closed_rules upper_index upper_cyrillic"
  unfolding upper_cyrillic_def by (simp add: upper_unfold cong: walk_cong)

lemma upper_armenian_georgian_closed: "closed_rules upper_index upper_armenian_georgian"
  unfolding upper_armenian_georgian_def by (simp add: upper_unfold cong: walk_cong)

lemma upper_latin_additional_closed: "closed_rules upper_index upper_latin_additional"
  unfolding upper_latin_additional_def by (simp add: upper_unfold cong: walk_cong)

lemma upper_greek_extended_1_closed: "closed_rules upper_index upper_greek_extended_1"
  unfolding upper_greek_extended_1_def by (simp add: upper_unfold cong: walk_cong)

lemma upper_greek_extended_2_closed: "closed_rules upper_index upper_greek_extended_2"
  unfolding upper_greek_extended_2_def by (simp add: upper_unfold cong: walk_cong)

lemma upper_greek_extended_3_closed: "closed_rules upper_index upper_greek_extended_3"
  unfolding upper_greek_extended_3_def by (simp add: upper_unfold cong: walk_cong)

lemma upper_greek_extended_4_closed: "closed_rules upper_index upper_greek_extended_4"
  unfolding upper_greek_extended_4_def by (simp add: upper_unfold cong: walk_cong)

lemma upper_symbols_closed: "closed_rules upper_index upper_symbols"
  unfolding upper_symbols_def by (simp add: upper_unfold cong: walk_cong)

lemma upper_glagolitic_coptic_closed: "closed_rules upper_index upper_glagolitic_coptic"
  unfolding upper_glagolitic_coptic_def by (simp add: upper_unfold cong: walk_cong)

lemma upper_latin_d_closed: "closed_rules upper_index upper_latin_d"
  unfolding upper_latin_d_def by (simp add: upper_unfold cong: walk_cong)

lemma upper_presentation_closed: "closed_rules upper_index upper_presentation"
  unfolding upper_presentation_def by (simp add: upper_unfold cong: walk_cong)

lemma upper_supplementary_closed: "closed_rules upper_index upper_supplementary"
  unfolding upper_supplementary_def by (simp add: upper_unfold cong: walk_cong)

lemma upper_table_closed: "closed_rules upper_index upper_table"
  unfolding upper_table_def closed_rules_append
  by (intro conjI upper_latin_1_closed upper_latin_2_closed upper_ipa_1_closed
      upper_ipa_2_closed upper_greek_closed upper_cyrillic_closed
      upper_armenian_georgian_closed upper_latin_additional_closed
      upper_greek_extended_1_closed upper_greek_extended_2_closed
      upper_greek_extended_3_closed upper_greek_extended_4_closed upper_symbols_closed
      upper_glagolitic_coptic_closed upper_latin_d_closed upper_presentation_closed
      upper_supplementary_closed)

lemmas lower_unfold =
  lower_index_def [THEN clear_blocks_arg] lower_latin_1_def [THEN clear_arg]
  lower_latin_1_def [THEN within_arg] lower_latin_2_def [THEN clear_arg]
  lower_latin_2_def [THEN within_arg] lower_latin_3_def [THEN clear_arg]
  lower_latin_3_def [THEN within_arg] lower_greek_def [THEN clear_arg]
  lower_greek_def [THEN within_arg] lower_cyrillic_def [THEN clear_arg]
  lower_cyrillic_def [THEN within_arg] lower_armenian_georgian_def [THEN clear_arg]
  lower_armenian_georgian_def [THEN within_arg] lower_latin_additional_def [THEN clear_arg]
  lower_latin_additional_def [THEN within_arg] lower_greek_extended_def [THEN clear_arg]
  lower_greek_extended_def [THEN within_arg] lower_symbols_def [THEN clear_arg]
  lower_symbols_def [THEN within_arg] lower_glagolitic_coptic_def [THEN clear_arg]
  lower_glagolitic_coptic_def [THEN within_arg] lower_latin_d_1_def [THEN clear_arg]
  lower_latin_d_1_def [THEN within_arg] lower_latin_d_2_def [THEN clear_arg]
  lower_latin_d_2_def [THEN within_arg] lower_presentation_def [THEN clear_arg]
  lower_presentation_def [THEN within_arg] lower_supplementary_def [THEN clear_arg]
  lower_supplementary_def [THEN within_arg]

lemma lower_index_ok: "index_ok lower_index"
  unfolding lower_index_def by (simp add: lower_unfold cong: walk_cong)

lemma lower_index_rules: "index_rules lower_index = lower_table"
  by (simp add: index_rules_def lower_index_def lower_table_def)

lemma lower_latin_1_closed: "closed_rules lower_index lower_latin_1"
  unfolding lower_latin_1_def by (simp add: lower_unfold cong: walk_cong)

lemma lower_latin_2_closed: "closed_rules lower_index lower_latin_2"
  unfolding lower_latin_2_def by (simp add: lower_unfold cong: walk_cong)

lemma lower_latin_3_closed: "closed_rules lower_index lower_latin_3"
  unfolding lower_latin_3_def by (simp add: lower_unfold cong: walk_cong)

lemma lower_greek_closed: "closed_rules lower_index lower_greek"
  unfolding lower_greek_def by (simp add: lower_unfold cong: walk_cong)

lemma lower_cyrillic_closed: "closed_rules lower_index lower_cyrillic"
  unfolding lower_cyrillic_def by (simp add: lower_unfold cong: walk_cong)

lemma lower_armenian_georgian_closed: "closed_rules lower_index lower_armenian_georgian"
  unfolding lower_armenian_georgian_def by (simp add: lower_unfold cong: walk_cong)

lemma lower_latin_additional_closed: "closed_rules lower_index lower_latin_additional"
  unfolding lower_latin_additional_def by (simp add: lower_unfold cong: walk_cong)

lemma lower_greek_extended_closed: "closed_rules lower_index lower_greek_extended"
  unfolding lower_greek_extended_def by (simp add: lower_unfold cong: walk_cong)

lemma lower_symbols_closed: "closed_rules lower_index lower_symbols"
  unfolding lower_symbols_def by (simp add: lower_unfold cong: walk_cong)

lemma lower_glagolitic_coptic_closed: "closed_rules lower_index lower_glagolitic_coptic"
  unfolding lower_glagolitic_coptic_def by (simp add: lower_unfold cong: walk_cong)

lemma lower_latin_d_1_closed: "closed_rules lower_index lower_latin_d_1"
  unfolding lower_latin_d_1_def by (simp add: lower_unfold cong: walk_cong)

lemma lower_latin_d_2_closed: "closed_rules lower_index lower_latin_d_2"
  unfolding lower_latin_d_2_def by (simp add: lower_unfold cong: walk_cong)

lemma lower_presentation_closed: "closed_rules lower_index lower_presentation"
  unfolding lower_presentation_def by (simp add: lower_unfold cong: walk_cong)

lemma lower_supplementary_closed: "closed_rules lower_index lower_supplementary"
  unfolding lower_supplementary_def by (simp add: lower_unfold cong: walk_cong)

lemma lower_table_closed: "closed_rules lower_index lower_table"
  unfolding lower_table_def closed_rules_append
  by (intro conjI lower_latin_1_closed lower_latin_2_closed lower_latin_3_closed
      lower_greek_closed lower_cyrillic_closed lower_armenian_georgian_closed
      lower_latin_additional_closed lower_greek_extended_closed lower_symbols_closed
      lower_glagolitic_coptic_closed lower_latin_d_1_closed lower_latin_d_2_closed
      lower_presentation_closed lower_supplementary_closed)

lemma to_upper_full_fixed:
  assumes "d \<in> set (to_upper_full c)"
  shows "to_upper_full d = [d]"
  using assms closed_table_fixed [OF upper_index_ok upper_table_closed upper_index_rules]
  by (simp add: to_upper_full_def)

lemma to_lower_full_fixed:
  assumes "d \<in> set (to_lower_full c)"
  shows "to_lower_full d = [d]"
  using assms closed_table_fixed [OF lower_index_ok lower_table_closed lower_index_rules]
  by (simp add: to_lower_full_def)

lemma to_upper_full_index:
  "to_upper_full c =
     (case find_idx c upper_index of None \<Rightarrow> [c] | Some r \<Rightarrow> apply_rule r c)"
  by (simp add: to_upper_full_def case_map_def find_idx_correct [OF upper_index_ok]
      upper_index_rules)

lemma to_lower_full_index:
  "to_lower_full c =
     (case find_idx c lower_index of None \<Rightarrow> [c] | Some r \<Rightarrow> apply_rule r c)"
  by (simp add: to_lower_full_def case_map_def find_idx_correct [OF lower_index_ok]
      lower_index_rules)

section \<open>Case conversion of strings\<close>

lemma concat_map_fixed:
  assumes "\<forall>d \<in> set xs. f d = [d]"
  shows "concat (map f xs) = xs"
  using assms by (induction xs) auto

lemma str_upper_idempotent: "str_upper (str_upper s) = str_upper s"
proof -
  have "\<forall>d \<in> set (str_upper s). to_upper_full d = [d]"
    by (auto simp: str_upper_def dest: to_upper_full_fixed)
  then have "concat (map to_upper_full (str_upper s)) = str_upper s"
    by (rule concat_map_fixed)
  then show ?thesis by (simp add: str_upper_def)
qed

text \<open>The capital sigma has a lowercase mapping, and the two small sigmas are fixed.\<close>

lemma to_lower_full_sigma:
  "to_lower_full 931 = [963]" "to_lower_full 962 = [962]" "to_lower_full 963 = [963]"
  by (simp_all add: to_lower_full_index lower_index_def [THEN find_idx_arg] lower_greek_def
      cong: walk_cong)

lemma lower_ucs4_fixed:
  assumes "d \<in> set (lower_ucs4 L before c after)"
  shows "lower_fixed d"
proof (cases "c = 931")
  case True
  then have "d = 962 \<or> d = 963" using assms by (auto simp: lower_ucs4_def split: if_splits)
  then show ?thesis using to_lower_full_sigma by (auto simp: lower_fixed_def)
next
  case False
  then have d: "d \<in> set (to_lower_full c)" using assms by (simp add: lower_ucs4_def)
  then have "to_lower_full d = [d]" by (rule to_lower_full_fixed)
  moreover have "d \<noteq> 931" using calculation to_lower_full_sigma(1) by auto
  ultimately show ?thesis by (simp add: lower_fixed_def)
qed

lemma do_lower_fixed:
  assumes "d \<in> set (do_lower L before s)"
  shows "lower_fixed d"
  using assms
  by (induction s arbitrary: before) (auto dest: lower_ucs4_fixed)

lemma do_lower_of_fixed:
  assumes "list_all lower_fixed s"
  shows "do_lower L before s = s"
  using assms
  by (induction s arbitrary: before) (auto simp: lower_ucs4_def lower_fixed_def)

lemma str_lower_idempotent: "str_lower L (str_lower L s) = str_lower L s"
proof -
  have "list_all lower_fixed (do_lower L [] s)"
    using do_lower_fixed by (auto simp: list_all_iff)
  then show ?thesis unfolding str_lower_def by (rule do_lower_of_fixed)
qed

text \<open>
  The conversions of the string of the scenarios, and two conversions outside ASCII:
  the sharp s becomes two letters, and a capital sigma after a cased letter at the
  end of the string becomes the final sigma.
\<close>

lemma str_upper_Hello: "str_upper (py ''Hello'') = py ''HELLO''"
  by (simp add: str_upper_def py_def to_upper_full_index upper_index_def [THEN find_idx_arg]
      upper_latin_1_def cong: walk_cong)

lemma str_lower_Hello: "str_lower L (py ''Hello'') = py ''hello''"
  by (simp add: str_lower_def lower_ucs4_def py_def to_lower_full_index
      lower_index_def [THEN find_idx_arg] lower_latin_1_def cong: walk_cong)

lemma str_upper_sharp_s: "str_upper [223] = [83, 83]"
  by (simp add: str_upper_def to_upper_full_index upper_index_def [THEN find_idx_arg]
      upper_latin_1_def cong: walk_cong)

lemma str_lower_final_sigma:
  assumes "cased L 913" "\<not> case_ignorable L 913"
  shows "str_lower L [913, 931] = [945, 962]"
  using assms
  by (simp add: str_lower_def lower_ucs4_def final_sigma_def to_lower_full_index
      lower_index_def [THEN find_idx_arg] lower_greek_def cong: walk_cong)

section \<open>Properties of the program\<close>

lemma operation_names_distinct:
  "py ''upper'' \<noteq> py ''lower''" "py ''upper'' \<noteq> py ''reverse''"
  "py ''lower'' \<noteq> py ''reverse''" "py ''text'' \<noteq> py ''operation''"
  by (simp_all add: py_def)

lemma excerpt_loads_eval:
  \<open>json_loads excerpt (py ''{"text": "Hello", "operation": "upper"}'') =
     Some (PyDict [(py ''text'', PyStr (py ''Hello'')), (py ''operation'', PyStr (py ''upper''))])\<close>
  \<open>json_loads excerpt (py ''{"text": "Hello", "operation": "lower"}'') =
     Some (PyDict [(py ''text'', PyStr (py ''Hello'')), (py ''operation'', PyStr (py ''lower''))])\<close>
  \<open>json_loads excerpt (py ''{"text": "Hello", "operation": "reverse"}'') =
     Some (PyDict [(py ''text'', PyStr (py ''Hello'')), (py ''operation'', PyStr (py ''reverse''))])\<close>
  \<open>json_loads excerpt (py ''{"text": "Hello"}'') =
     Some (PyDict [(py ''text'', PyStr (py ''Hello''))])\<close>
  \<open>json_loads excerpt (py ''{"operation": "reverse"}'') =
     Some (PyDict [(py ''operation'', PyStr (py ''reverse''))])\<close>
  \<open>json_loads excerpt (py ''{"operation": "reverse", "text": ""}'') =
     Some (PyDict [(py ''operation'', PyStr (py ''reverse'')), (py ''text'', PyStr [])])\<close>
  \<open>json_loads excerpt (py ''{"text": "Hi", "operation": "bogus"}'') =
     Some (PyDict [(py ''text'', PyStr (py ''Hi'')), (py ''operation'', PyStr (py ''bogus''))])\<close>
  \<open>json_loads excerpt (py ''{"text": [1, 2], "operation": "bogus"}'') =
     Some (PyDict [(py ''text'', PyList [PyInt 1, PyInt 2]),
                   (py ''operation'', PyStr (py ''bogus''))])\<close>
  \<open>json_loads excerpt (py ''{"text": [1, 2], "operation": "lower"}'') =
     Some (PyDict [(py ''text'', PyList [PyInt 1, PyInt 2]),
                   (py ''operation'', PyStr (py ''lower''))])\<close>
  \<open>json_loads excerpt (py ''[1, 2]'') = Some (PyList [PyInt 1, PyInt 2])\<close>
  \<open>json_loads excerpt (py ''{bad'') = None\<close>
  \<open>json_loads excerpt (py ''{"text": "Hi", "operation": "bogus", "x": Infinity}'') =
     Some (PyDict [(py ''text'', PyStr (py ''Hi'')), (py ''operation'', PyStr (py ''bogus'')),
                   (py ''x'', PyFloat 0x7FF0000000000000)])\<close>
  by (simp_all add: excerpt_def excerpt_loads_def py_def)

lemma excerpt_dumps_eval:
  \<open>json_dumps excerpt (PyDict [(py ''result'', PyStr (py ''HELLO''))]) = py ''{"result": "HELLO"}''\<close>
  \<open>json_dumps excerpt (PyDict [(py ''result'', PyStr (py ''hello''))]) = py ''{"result": "hello"}''\<close>
  \<open>json_dumps excerpt (PyDict [(py ''result'', PyStr (py ''olleH''))]) = py ''{"result": "olleH"}''\<close>
  \<open>json_dumps excerpt (PyDict [(py ''result'', PyStr (py ''Hi''))]) = py ''{"result": "Hi"}''\<close>
  \<open>json_dumps excerpt (PyDict [(py ''result'', PyStr [])]) = py ''{"result": ""}''\<close>
  \<open>json_dumps excerpt (PyDict [(py ''result'', PyList [PyInt 1, PyInt 2])]) =
     py ''{"result": [1, 2]}''\<close>
  by (simp_all add: excerpt_def excerpt_dumps_def py_def)

lemma rev_Hello: "rev (py ''Hello'') = py ''olleH''"
  by (simp add: py_def)

text \<open>
  The recogniser on the documents of the scenarios and on the two documents that are
  not well-formed JSON.
\<close>

lemmas json_defs = wellformed_json_def skip_ws_def json_ws_def json_digit_def json_hexdig_def
  json_escape_def json_number_def json_int_def json_frac_def json_exp_def json_digits1_def
  json_literal_def py_def

lemma wellformed_scenarios:
  \<open>wellformed_json (py ''{"text": "Hello", "operation": "upper"}'')\<close>
  \<open>wellformed_json (py ''{"text": "Hello"}'')\<close>
  \<open>wellformed_json (py ''{"operation": "reverse"}'')\<close>
  \<open>wellformed_json (py ''{"text": [1, 2], "operation": "bogus"}'')\<close>
  \<open>wellformed_json (py ''[1, 2]'')\<close>
  by (simp_all add: json_defs)

lemma not_wellformed_bad: "\<not> wellformed_json (py ''{bad'')"
  by (simp add: json_defs)

lemma not_wellformed_Infinity:
  \<open>\<not> wellformed_json (py ''{"text": "Hi", "operation": "bogus", "x": Infinity}'')\<close>
  by (simp add: json_defs)

text \<open>
  Claim C1. For a request whose text is the string \<open>s\<close> and whose operation is
  \<^verbatim>\<open>"upper"\<close>, \<^verbatim>\<open>"lower"\<close> or \<^verbatim>\<open>"reverse"\<close> (each field given or defaulted), the
  process writes to standard output the serialisation of \<^verbatim>\<open>{"result": r}\<close> followed by
  a newline, writes nothing to standard error and ends with status 0, where \<open>r\<close> is
  \<^verbatim>\<open>s.upper()\<close>, \<^verbatim>\<open>s.lower()\<close>, or the code points of \<open>s\<close> in reverse order.
\<close>

theorem known_operation_result:
  assumes "json_loads L a = Some (PyDict d)"
    and "call_get (PyDict d) (py ''text'') (PyStr []) = Inr (PyStr s)"
    and "call_get (PyDict d) (py ''operation'') (PyStr (py ''upper'')) = Inr (PyStr op)"
    and "op = py ''upper'' \<or> op = py ''lower'' \<or> op = py ''reverse''"
  shows "script L [prog, a] =
    \<lparr>out = json_dumps L (PyDict [(py ''result'',
              PyStr (if op = py ''upper'' then str_upper s
                     else if op = py ''lower'' then str_lower L s
                     else rev s))]) @ [10],
     err = [], status = 0\<rparr>"
  using assms operation_names_distinct
  by (auto simp add: script_def main_def transform_def print_out_def)

theorem known_operation_result_witness:
  \<open>script excerpt [py ''main.py'', py ''{"text": "Hello", "operation": "upper"}''] =
     \<lparr>out = py ''{"result": "HELLO"}'' @ [10], err = [], status = 0\<rparr>
   \<and> script excerpt [py ''main.py'', py ''{"text": "Hello", "operation": "lower"}''] =
     \<lparr>out = py ''{"result": "hello"}'' @ [10], err = [], status = 0\<rparr>
   \<and> script excerpt [py ''main.py'', py ''{"text": "Hello", "operation": "reverse"}''] =
     \<lparr>out = py ''{"result": "olleH"}'' @ [10], err = [], status = 0\<rparr>\<close>
proof -
  have t: "call_get (PyDict [(py ''text'', PyStr (py ''Hello'')), (py ''operation'', PyStr op)])
             (py ''text'') (PyStr []) = Inr (PyStr (py ''Hello''))" for op
    by simp
  have o: "call_get (PyDict [(py ''text'', PyStr (py ''Hello'')), (py ''operation'', PyStr op)])
             (py ''operation'') (PyStr (py ''upper'')) = Inr (PyStr op)" for op
    using operation_names_distinct(4) by simp
  have \<open>script excerpt [py ''main.py'', py ''{"text": "Hello", "operation": "upper"}''] =
     \<lparr>out = py ''{"result": "HELLO"}'' @ [10], err = [], status = 0\<rparr>\<close>
    using known_operation_result [OF excerpt_loads_eval(1) t o, of "py ''main.py''"]
    by (simp add: str_upper_Hello excerpt_dumps_eval)
  moreover
  have \<open>script excerpt [py ''main.py'', py ''{"text": "Hello", "operation": "lower"}''] =
     \<lparr>out = py ''{"result": "hello"}'' @ [10], err = [], status = 0\<rparr>\<close>
    using known_operation_result [OF excerpt_loads_eval(2) t o, of "py ''main.py''"]
      operation_names_distinct
    by (simp add: str_lower_Hello excerpt_dumps_eval)
  moreover
  have \<open>script excerpt [py ''main.py'', py ''{"text": "Hello", "operation": "reverse"}''] =
     \<lparr>out = py ''{"result": "olleH"}'' @ [10], err = [], status = 0\<rparr>\<close>
    using known_operation_result [OF excerpt_loads_eval(3) t o, of "py ''main.py''"]
      operation_names_distinct
    by (simp add: rev_Hello excerpt_dumps_eval)
  ultimately show ?thesis by simp
qed

text \<open>
  Claim C2. For a request whose text is the string \<open>s\<close> and whose operation is a
  string other than \<^verbatim>\<open>"upper"\<close>, \<^verbatim>\<open>"lower"\<close> and \<^verbatim>\<open>"reverse"\<close> (the empty string
  included), the process does not fail: it writes the serialisation of
  \<^verbatim>\<open>{"result": s}\<close>, with \<open>s\<close> unchanged, and ends with status 0.
\<close>

theorem unknown_operation_identity:
  assumes "json_loads L a = Some (PyDict d)"
    and "call_get (PyDict d) (py ''text'') (PyStr []) = Inr (PyStr s)"
    and "call_get (PyDict d) (py ''operation'') (PyStr (py ''upper'')) = Inr (PyStr op)"
    and "op \<noteq> py ''upper''" "op \<noteq> py ''lower''" "op \<noteq> py ''reverse''"
  shows "script L [prog, a] =
    \<lparr>out = json_dumps L (PyDict [(py ''result'', PyStr s)]) @ [10], err = [], status = 0\<rparr>"
  using assms
  by (simp add: script_def main_def transform_def print_out_def)

theorem unknown_operation_identity_witness:
  \<open>py ''bogus'' \<noteq> py ''upper'' \<and> py ''bogus'' \<noteq> py ''lower'' \<and> py ''bogus'' \<noteq> py ''reverse''
   \<and> script excerpt [py ''main.py'', py ''{"text": "Hi", "operation": "bogus"}''] =
     \<lparr>out = py ''{"result": "Hi"}'' @ [10], err = [], status = 0\<rparr>\<close>
proof -
  have n: "py ''bogus'' \<noteq> py ''upper''" "py ''bogus'' \<noteq> py ''lower''"
    "py ''bogus'' \<noteq> py ''reverse''"
    by (simp_all add: py_def)
  have t: "call_get (PyDict [(py ''text'', PyStr (py ''Hi'')),
                             (py ''operation'', PyStr (py ''bogus''))])
             (py ''text'') (PyStr []) = Inr (PyStr (py ''Hi''))"
    by simp
  have o: "call_get (PyDict [(py ''text'', PyStr (py ''Hi'')),
                             (py ''operation'', PyStr (py ''bogus''))])
             (py ''operation'') (PyStr (py ''upper'')) = Inr (PyStr (py ''bogus''))"
    using operation_names_distinct(4) by simp
  show ?thesis
    using n unknown_operation_identity [OF excerpt_loads_eval(7) t o n, of "py ''main.py''"]
    by (simp add: excerpt_dumps_eval)
qed

text \<open>
  Claim C3, as amended. When \<^verbatim>\<open>json.loads\<close> rejects the argument, the process ends
  with status 1, the interpreter's traceback of the decoding error is the only thing on
  standard error, and nothing is written to standard output. The condition is the
  verdict of the library and not the grammar of JSON: see the counterexample below.
\<close>

theorem malformed_json_fails:
  assumes "json_loads L a = None"
  shows "script L [prog, a] =
           \<lparr>out = [], err = [Traceback JSONDecodeError], status = 1\<rparr>"
  using assms by (simp add: script_def main_def)

theorem malformed_json_fails_witness:
  "\<not> wellformed_json (py ''{bad'')
   \<and> json_loads excerpt (py ''{bad'') = None
   \<and> script excerpt [py ''main.py'', py ''{bad''] =
       \<lparr>out = [], err = [Traceback JSONDecodeError], status = 1\<rparr>"
  using not_wellformed_bad excerpt_loads_eval(11)
    malformed_json_fails [OF excerpt_loads_eval(11), of "py ''main.py''"]
  by simp

text \<open>
  Claim C3 as it is worded fails. The argument
  \<^verbatim>\<open>{"text": "Hi", "operation": "bogus", "x": Infinity}\<close> is not well-formed JSON, since
  \<^verbatim>\<open>Infinity\<close> is no JSON value, but \<^verbatim>\<open>json.loads\<close> accepts it: the process writes
  \<^verbatim>\<open>{"result": "Hi"}\<close> to standard output, nothing to standard error, and ends with
  status 0.
\<close>

theorem malformed_json_counterexample:
  \<open>\<not> wellformed_json (py ''{"text": "Hi", "operation": "bogus", "x": Infinity}'')
   \<and> script excerpt
         [py ''main.py'', py ''{"text": "Hi", "operation": "bogus", "x": Infinity}''] =
       \<lparr>out = py ''{"result": "Hi"}'' @ [10], err = [], status = 0\<rparr>\<close>
proof -
  have n: "PyStr (py ''bogus'') \<noteq> PyStr (py ''upper'')"
    "PyStr (py ''bogus'') \<noteq> PyStr (py ''lower'')"
    "PyStr (py ''bogus'') \<noteq> PyStr (py ''reverse'')"
    by (simp_all add: py_def)
  have k: "py ''text'' \<noteq> py ''operation''" "py ''operation'' \<noteq> py ''text''"
    by (simp_all add: py_def)
  have \<open>script excerpt
         [py ''main.py'', py ''{"text": "Hi", "operation": "bogus", "x": Infinity}''] =
       \<lparr>out = py ''{"result": "Hi"}'' @ [10], err = [], status = 0\<rparr>\<close>
    using n k
    by (simp add: script_def main_def transform_def print_out_def excerpt_loads_eval(12)
        excerpt_dumps_eval(4))
  then show ?thesis using not_wellformed_Infinity by simp
qed

text \<open>
  Claim C4. Invoked with no argument (\<^verbatim>\<open>sys.argv\<close> holds the program name only), the
  process writes the usage line to standard error, ends with status 1 and writes
  nothing to standard output. The outcome does not mention the library: no document
  is parsed.
\<close>

theorem no_argument_usage:
  "script L [prog] =
     \<lparr>out = [], err = [Line (py ''Usage: '' @ prog @ py '' <json_input>'')], status = 1\<rparr>"
  by (simp add: script_def main_def print_err_def)

text \<open>
  Claim C5. A request without \<^verbatim>\<open>"text"\<close> behaves as the same request with
  \<^verbatim>\<open>"text": ""\<close> added, and a request without \<^verbatim>\<open>"operation"\<close> as the same request
  with \<^verbatim>\<open>"operation": "upper"\<close> added. In particular \<^verbatim>\<open>{"text": "Hello"}\<close> gives
  \<^verbatim>\<open>{"result": "HELLO"}\<close> and \<^verbatim>\<open>{"operation": "reverse"}\<close> gives \<^verbatim>\<open>{"result": ""}\<close>.
\<close>

theorem missing_fields_default:
  "(json_loads L a = Some (PyDict d) \<and> map_of d (py ''text'') = None
      \<and> json_loads L a' = Some (PyDict (d @ [(py ''text'', PyStr [])]))
     \<longrightarrow> script L [prog, a] = script L [prog, a'])
   \<and> (json_loads L b = Some (PyDict e) \<and> map_of e (py ''operation'') = None
      \<and> json_loads L b' = Some (PyDict (e @ [(py ''operation'', PyStr (py ''upper''))]))
     \<longrightarrow> script L [prog, b] = script L [prog, b'])
   \<and> (json_loads L h = Some (PyDict [(py ''text'', PyStr (py ''Hello''))])
     \<longrightarrow> script L [prog, h] =
          \<lparr>out = json_dumps L (PyDict [(py ''result'', PyStr (py ''HELLO''))]) @ [10],
           err = [], status = 0\<rparr>)
   \<and> (json_loads L r = Some (PyDict [(py ''operation'', PyStr (py ''reverse''))])
     \<longrightarrow> script L [prog, r] =
          \<lparr>out = json_dumps L (PyDict [(py ''result'', PyStr [])]) @ [10],
           err = [], status = 0\<rparr>)"
proof (intro conjI impI)
  assume "json_loads L a = Some (PyDict d) \<and> map_of d (py ''text'') = None
    \<and> json_loads L a' = Some (PyDict (d @ [(py ''text'', PyStr [])]))"
  then show "script L [prog, a] = script L [prog, a']"
    using operation_names_distinct(4)
    by (auto simp add: script_def main_def map_add_def split: option.splits)
next
  assume "json_loads L b = Some (PyDict e) \<and> map_of e (py ''operation'') = None
    \<and> json_loads L b' = Some (PyDict (e @ [(py ''operation'', PyStr (py ''upper''))]))"
  then show "script L [prog, b] = script L [prog, b']"
    using operation_names_distinct(4)
    by (auto simp add: script_def main_def map_add_def split: option.splits)
next
  assume "json_loads L h = Some (PyDict [(py ''text'', PyStr (py ''Hello''))])"
  then show "script L [prog, h] =
     \<lparr>out = json_dumps L (PyDict [(py ''result'', PyStr (py ''HELLO''))]) @ [10],
      err = [], status = 0\<rparr>"
    using operation_names_distinct(4)
    by (simp add: script_def main_def transform_def print_out_def str_upper_Hello)
next
  assume "json_loads L r = Some (PyDict [(py ''operation'', PyStr (py ''reverse''))])"
  then show "script L [prog, r] =
     \<lparr>out = json_dumps L (PyDict [(py ''result'', PyStr [])]) @ [10], err = [], status = 0\<rparr>"
    using operation_names_distinct
    by (simp add: script_def main_def transform_def print_out_def)
qed

theorem missing_fields_default_witness:
  \<open>script excerpt [py ''main.py'', py ''{"operation": "reverse"}''] =
     script excerpt [py ''main.py'', py ''{"operation": "reverse", "text": ""}'']
   \<and> script excerpt [py ''main.py'', py ''{"text": "Hello"}''] =
     script excerpt [py ''main.py'', py ''{"text": "Hello", "operation": "upper"}'']
   \<and> script excerpt [py ''main.py'', py ''{"text": "Hello"}''] =
     \<lparr>out = py ''{"result": "HELLO"}'' @ [10], err = [], status = 0\<rparr>
   \<and> script excerpt [py ''main.py'', py ''{"operation": "reverse"}''] =
     \<lparr>out = py ''{"result": ""}'' @ [10], err = [], status = 0\<rparr>\<close>
proof -
  have m: "map_of [(py ''operation'', PyStr (py ''reverse''))] (py ''text'') = None"
    "map_of [(py ''text'', PyStr (py ''Hello''))] (py ''operation'') = None"
    using operation_names_distinct(4) by auto
  note T = missing_fields_default
      [of excerpt \<open>py ''{"operation": "reverse"}''\<close>
          "[(py ''operation'', PyStr (py ''reverse''))]"
          \<open>py ''{"operation": "reverse", "text": ""}''\<close>
          "py ''main.py''"
          \<open>py ''{"text": "Hello"}''\<close>
          "[(py ''text'', PyStr (py ''Hello''))]"
          \<open>py ''{"text": "Hello", "operation": "upper"}''\<close>
          \<open>py ''{"text": "Hello"}''\<close>
          \<open>py ''{"operation": "reverse"}''\<close>]
  have c1: \<open>script excerpt [py ''main.py'', py ''{"operation": "reverse"}''] =
     script excerpt [py ''main.py'', py ''{"operation": "reverse", "text": ""}'']\<close>
    using T [THEN conjunct1] m(1) excerpt_loads_eval(5,6) by simp
  have c2: \<open>script excerpt [py ''main.py'', py ''{"text": "Hello"}''] =
     script excerpt [py ''main.py'', py ''{"text": "Hello", "operation": "upper"}'']\<close>
    using T [THEN conjunct2, THEN conjunct1] m(2) excerpt_loads_eval(4,1) by simp
  have c3: \<open>script excerpt [py ''main.py'', py ''{"text": "Hello"}''] =
     \<lparr>out = py ''{"result": "HELLO"}'' @ [10], err = [], status = 0\<rparr>\<close>
    using T [THEN conjunct2, THEN conjunct2, THEN conjunct1] excerpt_loads_eval(4)
    by (simp add: excerpt_dumps_eval)
  have c4: \<open>script excerpt [py ''main.py'', py ''{"operation": "reverse"}''] =
     \<lparr>out = py ''{"result": ""}'' @ [10], err = [], status = 0\<rparr>\<close>
    using T [THEN conjunct2, THEN conjunct2, THEN conjunct2] excerpt_loads_eval(5)
    by (simp add: excerpt_dumps_eval)
  show ?thesis
    by (rule conjI [OF c1 conjI [OF c2 conjI [OF c3 c4]]])
qed


text \<open>
  Claim C6. The transform \<^verbatim>\<open>"reverse"\<close> is an involution on strings: applied to a
  string \<open>s\<close> it succeeds with the reversed string, and applied to that result it
  succeeds with \<open>s\<close> again.
\<close>

theorem reverse_involution:
  "transform L (PyStr (py ''reverse'')) (PyStr s) = Inr (PyStr (rev s))
   \<and> transform L (PyStr (py ''reverse'')) (PyStr (rev s)) = Inr (PyStr s)"
  using operation_names_distinct by (simp add: transform_def)

text \<open>
  Claim C7. The transforms \<^verbatim>\<open>"upper"\<close> and \<^verbatim>\<open>"lower"\<close> are idempotent on strings:
  applied to a string \<open>s\<close> each succeeds with a string, and applied to that string it
  succeeds with the same string again.
\<close>

theorem case_conversion_idempotent:
  "transform L (PyStr (py ''upper'')) (PyStr s) = Inr (PyStr (str_upper s))
   \<and> transform L (PyStr (py ''upper'')) (PyStr (str_upper s)) = Inr (PyStr (str_upper s))
   \<and> transform L (PyStr (py ''lower'')) (PyStr s) = Inr (PyStr (str_lower L s))
   \<and> transform L (PyStr (py ''lower'')) (PyStr (str_lower L s)) =
         Inr (PyStr (str_lower L s))"
  using operation_names_distinct
  by (simp add: transform_def str_upper_idempotent str_lower_idempotent)

text \<open>
  Claim C8. With two or more arguments the process behaves as with the first one
  alone: the same standard output, standard error and status.
\<close>

theorem extra_arguments_ignored:
  "script L (prog # a # rest) = script L [prog, a]"
  by (simp add: script_def main_def)

text \<open>
  Claim C9. When the argument is well-formed JSON whose top-level value is not an
  object, \<^verbatim>\<open>input_data.get\<close> raises \<^verbatim>\<open>AttributeError\<close>, which nothing catches: the
  process ends with status 1, the traceback on standard error and nothing on standard
  output. The exception is neither the exit of the usage check nor the decoding error.
\<close>

theorem non_object_fails:
  assumes "json_loads L a = Some v" and "\<forall>d. v \<noteq> PyDict d"
  shows "script L [prog, a] = \<lparr>out = [], err = [Traceback AttributeError], status = 1\<rparr>
    \<and> AttributeError \<noteq> JSONDecodeError \<and> AttributeError \<noteq> SystemExit 1"
  using assms by (cases v) (simp_all add: script_def main_def)

theorem non_object_fails_witness:
  \<open>json_loads excerpt (py ''[1, 2]'') = Some (PyList [PyInt 1, PyInt 2])
   \<and> (\<forall>d. PyList [PyInt 1, PyInt 2] \<noteq> PyDict d)
   \<and> script excerpt [py ''main.py'', py ''[1, 2]''] =
       \<lparr>out = [], err = [Traceback AttributeError], status = 1\<rparr>\<close>
proof -
  have n: "\<forall>d. PyList [PyInt 1, PyInt 2] \<noteq> PyDict d" by simp
  show ?thesis
    using n excerpt_loads_eval(10)
      non_object_fails [OF excerpt_loads_eval(10) n, of "py ''main.py''"]
    by simp
qed

text \<open>
  Claim C10. When \<^verbatim>\<open>"text"\<close> holds a value \<open>v\<close> that is not a string: under an
  operation that is none of \<^verbatim>\<open>"upper"\<close>, \<^verbatim>\<open>"lower"\<close>, \<^verbatim>\<open>"reverse"\<close> the process
  succeeds and writes the serialisation of \<^verbatim>\<open>{"result": v}\<close> with \<open>v\<close> unchanged, so
  the result is not a string; under \<^verbatim>\<open>"upper"\<close> or \<^verbatim>\<open>"lower"\<close> the method lookup on
  \<open>v\<close> raises \<^verbatim>\<open>AttributeError\<close> and the process ends with status 1 and nothing on
  standard output.
\<close>

theorem non_string_text:
  assumes "json_loads L a = Some (PyDict d)"
    and "call_get (PyDict d) (py ''text'') (PyStr []) = Inr v"
    and "\<forall>s. v \<noteq> PyStr s"
    and "call_get (PyDict d) (py ''operation'') (PyStr (py ''upper'')) = Inr operation"
  shows "(operation \<noteq> PyStr (py ''upper'') \<and> operation \<noteq> PyStr (py ''lower'')
            \<and> operation \<noteq> PyStr (py ''reverse'') \<longrightarrow>
          script L [prog, a] =
            \<lparr>out = json_dumps L (PyDict [(py ''result'', v)]) @ [10], err = [], status = 0\<rparr>)
       \<and> (operation = PyStr (py ''upper'') \<or> operation = PyStr (py ''lower'') \<longrightarrow>
          script L [prog, a] = \<lparr>out = [], err = [Traceback AttributeError], status = 1\<rparr>)"
  using assms operation_names_distinct
  by (cases v) (auto simp add: script_def main_def transform_def print_out_def)

theorem non_string_text_witness:
  \<open>(\<forall>s. PyList [PyInt 1, PyInt 2] \<noteq> PyStr s)
   \<and> script excerpt [py ''main.py'', py ''{"text": [1, 2], "operation": "bogus"}''] =
       \<lparr>out = py ''{"result": [1, 2]}'' @ [10], err = [], status = 0\<rparr>
   \<and> script excerpt [py ''main.py'', py ''{"text": [1, 2], "operation": "lower"}''] =
       \<lparr>out = [], err = [Traceback AttributeError], status = 1\<rparr>\<close>
proof -
  have n: "\<forall>s. PyList [PyInt 1, PyInt 2] \<noteq> PyStr s" by simp
  have b: "PyStr (py ''bogus'') \<noteq> PyStr (py ''upper'')"
    "PyStr (py ''bogus'') \<noteq> PyStr (py ''lower'')"
    "PyStr (py ''bogus'') \<noteq> PyStr (py ''reverse'')"
    by (simp_all add: py_def)
  have t: "call_get (PyDict [(py ''text'', PyList [PyInt 1, PyInt 2]),
                             (py ''operation'', PyStr op)])
             (py ''text'') (PyStr []) = Inr (PyList [PyInt 1, PyInt 2])" for op
    by simp
  have o: "call_get (PyDict [(py ''text'', PyList [PyInt 1, PyInt 2]),
                             (py ''operation'', PyStr op)])
             (py ''operation'') (PyStr (py ''upper'')) = Inr (PyStr op)" for op
    using operation_names_distinct(4) by simp
  have c1: \<open>script excerpt [py ''main.py'', py ''{"text": [1, 2], "operation": "bogus"}''] =
       \<lparr>out = py ''{"result": [1, 2]}'' @ [10], err = [], status = 0\<rparr>\<close>
    using non_string_text [OF excerpt_loads_eval(8) t n o, of "py ''main.py''", THEN conjunct1] b
    by (simp add: excerpt_dumps_eval)
  have c2: \<open>script excerpt [py ''main.py'', py ''{"text": [1, 2], "operation": "lower"}''] =
       \<lparr>out = [], err = [Traceback AttributeError], status = 1\<rparr>\<close>
    using non_string_text [OF excerpt_loads_eval(9) t n o, of "py ''main.py''", THEN conjunct2]
    by simp
  show ?thesis
    by (rule conjI [OF n conjI [OF c1 c2]])
qed

end
